theory Spec2Isabelle
  imports Complex_Main "HOL-Library.AList"
begin

section \<open>JavaScript values used by the front end\<close>

text \<open>
  Timestamps travel as ISO strings and are turned into \<^verbatim>\<open>Date\<close> objects by
  \<^verbatim>\<open>new Date(str)\<close>. A timestamp string is represented by the object that constructor
  yields: an instant in milliseconds since the epoch, or the Invalid Date whose
  \<^verbatim>\<open>getTime()\<close> is NaN. \<^verbatim>\<open>new Date()\<close> (the clock) is always valid, so the
  current time is an \<open>int\<close> of milliseconds.

  A JavaScript number that may be NaN is an option: \<open>None\<close> is NaN. Every comparison
  with NaN is false. Quotients are exact rationals; the doubles of the source agree with
  them on every comparison made here, since the divisors are constants and the bounds
  compared against are integers.
\<close>

datatype js_date = Date int | InvalidDate

fun getTime :: "js_date \<Rightarrow> int option" where
  "getTime (Date t) = Some t"
| "getTime InvalidDate = None"

definition js_lt :: "'a::linorder option \<Rightarrow> 'a \<Rightarrow> bool" where
  "js_lt x c = (case x of None \<Rightarrow> False | Some v \<Rightarrow> v < c)"

definition js_le :: "'a::linorder option \<Rightarrow> 'a \<Rightarrow> bool" where
  "js_le x c = (case x of None \<Rightarrow> False | Some v \<Rightarrow> v \<le> c)"

definition js_ge :: "'a::linorder option \<Rightarrow> 'a \<Rightarrow> bool" where
  "js_ge x c = (case x of None \<Rightarrow> False | Some v \<Rightarrow> c \<le> v)"

text \<open>\<^verbatim>\<open>endsWith\<close> of a string.\<close>

definition endsWith :: "string \<Rightarrow> string \<Rightarrow> bool" where
  "endsWith s suf = (length suf \<le> length s \<and> drop (length s - length suf) s = suf)"


section \<open>lib/utils: expiry helpers\<close>

text \<open>
  \<^verbatim>\<open>getDaysUntilExpiry(validTo)\<close>: \<^verbatim>\<open>Math.ceil(diffTime / (1000 * 60 * 60 * 24))\<close> with
  \<^verbatim>\<open>diffTime = expiry.getTime() - now.getTime()\<close>. The clock is the first argument.
\<close>

definition getDaysUntilExpiry :: "int \<Rightarrow> js_date \<Rightarrow> int option" where
  "getDaysUntilExpiry now validTo =
     (case getTime validTo of
        None \<Rightarrow> None
      | Some expiry \<Rightarrow>
          (let diffTime = expiry - now
           in Some \<lceil>(of_int diffTime :: rat) / (1000 * 60 * 60 * 24)\<rceil>))"

definition getExpiryColor :: "int option \<Rightarrow> string" where
  "getExpiryColor daysUntil =
     (if js_lt daysUntil 0 then ''text-gray-500''
      else if js_le daysUntil 3 then ''text-red-600''
      else if js_le daysUntil 7 then ''text-yellow-600''
      else ''text-green-600'')"


section \<open>lib/api: data model\<close>

text \<open>
  The interfaces of \<^verbatim>\<open>lib/api.ts\<close> as records, field for field. A nullable field is an
  option, a timestamp string is a \<open>js_date\<close>, an amount is a rational. A field whose
  name is taken in Isabelle (\<open>id\<close>, \<open>notes\<close>, \<open>text\<close>, \<open>method\<close>, \<open>file\<close>, \<open>size\<close>,
  \<open>message\<close>) carries a prime. Where two interfaces share a field name the field is
  written with its record, as in \<open>Rate.status\<close>.
\<close>

record Rate =
  id' :: string
  carrier_name :: string
  mode :: string
  origin_port :: string
  destination_port :: string
  currency :: string
  rate_per_unit :: rat
  unit :: string
  minimum_charge :: "rat option"
  dg_surcharge_pct :: "rat option"
  valid_from :: js_date
  valid_to :: js_date
  source :: string
  status :: string
  notes' :: "string option"
  created_at :: js_date


section \<open>Dashboard: rates expiring within 7 days\<close>

text \<open>
  The filter of \<^verbatim>\<open>DashboardPage\<close>:
  \<^verbatim>\<open>ratesData.filter((r) => getDaysUntilExpiry(r.valid_to) <= 7 && getDaysUntilExpiry(r.valid_to) >= 0)\<close>.
  Both clock reads of one predicate are the same instant.
\<close>

definition expiring :: "int \<Rightarrow> Rate list \<Rightarrow> Rate list" where
  "expiring now ratesData =
     filter (\<lambda>r. js_le (getDaysUntilExpiry now (valid_to r)) 7
               \<and> js_ge (getDaysUntilExpiry now (valid_to r)) 0) ratesData"


section \<open>SLABadge and the RFQ table\<close>

record RFQListItem =
  id' :: string
  rfq_reference :: "string option"
  customer_name :: "string option"
  subject :: "string option"
  status :: string
  urgency :: string
  shipping_mode :: "string option"
  origin :: "string option"
  destination :: "string option"
  is_dangerous_goods :: bool
  odoo_quotation_number :: "string option"
  assigned_agent :: "string option"
  sla_deadline_at :: "js_date option"
  sla_breached :: bool
  received_at :: "js_date option"
  created_at :: "js_date option"

text \<open>
  The badge \<^verbatim>\<open>SLABadge({ deadline, breached })\<close> renders one of five spans. The two
  "h left" spans carry \<^verbatim>\<open>hoursRemaining\<close> (shown with \<^verbatim>\<open>toFixed(1)\<close>).
  A \<open>deadline\<close> that is \<^verbatim>\<open>null\<close> or the empty string is \<open>None\<close> (\<^verbatim>\<open>!deadline\<close>).
\<close>

datatype badge =
    NoSLA
  | Breached
  | HoursLeftOrange "rat option"
  | HoursLeftYellow "rat option"
  | OnTrack

definition hoursRemaining :: "int \<Rightarrow> js_date \<Rightarrow> rat option" where
  "hoursRemaining now deadlineDate =
     (case getTime deadlineDate of
        None \<Rightarrow> None
      | Some d \<Rightarrow> Some (of_int (d - now) / (1000 * 60 * 60)))"

definition SLABadge :: "int \<Rightarrow> js_date option \<Rightarrow> bool \<Rightarrow> badge" where
  "SLABadge now deadline breached =
     (case deadline of
        None \<Rightarrow> NoSLA
      | Some deadlineDate \<Rightarrow>
          (let h = hoursRemaining now deadlineDate
           in if breached \<or> js_lt h 0 then Breached
              else if js_le h 2 then HoursLeftOrange h
              else if js_le h 8 then HoursLeftYellow h
              else OnTrack))"

text \<open>
  The SLA cell of a row of \<^verbatim>\<open>RFQTable\<close>:
  \<^verbatim>\<open><SLABadge deadline={rfq.sla_deadline_at} breached={rfq.sla_breached} />\<close>,
  and the whole column.
\<close>

definition RFQTable_sla_cell :: "int \<Rightarrow> RFQListItem \<Rightarrow> badge" where
  "RFQTable_sla_cell now rfq = SLABadge now (sla_deadline_at rfq) (sla_breached rfq)"

definition RFQTable_sla_column :: "int \<Rightarrow> RFQListItem list \<Rightarrow> badge list" where
  "RFQTable_sla_column now rfqs = map (RFQTable_sla_cell now) rfqs"

text \<open>The terminal statuses of the lifecycle: sent and cancelled.\<close>

definition terminal :: "string \<Rightarrow> bool" where
  "terminal st = (st = ''sent'' \<or> st = ''cancelled'')"

definition rfq_sent_overdue :: RFQListItem where
  "rfq_sent_overdue =
     \<lparr> RFQListItem.id' = ''rfq-1'', rfq_reference = None, customer_name = None,
       subject = None, RFQListItem.status = ''sent'', urgency = ''STANDARD'',
       shipping_mode = None, origin = None, destination = None,
       is_dangerous_goods = False, odoo_quotation_number = None, assigned_agent = None,
       sla_deadline_at = Some (Date 0), sla_breached = False, received_at = None,
       RFQListItem.created_at = None \<rparr>"


section \<open>RateTable\<close>





definition example_rate :: "string \<Rightarrow> js_date \<Rightarrow> js_date \<Rightarrow> Rate" where
  "example_rate st vfrom vto =
     \<lparr> Rate.id' = ''rate-1'', carrier_name = ''Carrier'', mode = ''SEA'',
       origin_port = ''SIN'', destination_port = ''PHC'', currency = ''USD'',
       rate_per_unit = 50, unit = ''KG'', minimum_charge = None, dg_surcharge_pct = None,
       valid_from = vfrom, valid_to = vto, source = ''MANUAL'', Rate.status = st,
       notes' = None, Rate.created_at = Date 0 \<rparr>"


section \<open>lib/api: the HTTP client\<close>

subsection \<open>Strings of numbers and query strings\<close>

text \<open>
  \<^verbatim>\<open>String(n)\<close> and \<^verbatim>\<open>`${n}`\<close> of an integer: its decimal digits. HTTP status codes are
  naturals; \<^verbatim>\<open>approachingHours\<close> is taken over the integers. JavaScript prints a number
  this way when it is a safe integer (magnitude at most 9007199254740991); beyond that a
  number is a rounded double and prints otherwise.
\<close>

definition digit_char :: "nat \<Rightarrow> char" where
  "digit_char n = ''0123456789'' ! n"

function String_nat :: "nat \<Rightarrow> string" where
  "String_nat n =
     (if n < 10 then [digit_char n] else String_nat (n div 10) @ [digit_char (n mod 10)])"
  by pat_completeness auto
termination
  by (relation "measure (\<lambda>n. n)") auto

declare String_nat.simps [simp del]

definition String_int :: "int \<Rightarrow> string" where
  "String_int i = (if i < 0 then ''-'' @ String_nat (nat (- i)) else String_nat (nat i))"

definition String_bool :: "bool \<Rightarrow> string" where
  "String_bool b = (if b then ''true'' else ''false'')"

text \<open>
  \<^verbatim>\<open>URLSearchParams\<close>: an ordered list of name/value pairs. \<^verbatim>\<open>set\<close> replaces the value of a
  name or appends the pair; \<^verbatim>\<open>toString\<close> is the form-urlencoded serialisation (strings
  are their UTF-8 bytes).
\<close>

type_synonym URLSearchParams = "(string \<times> string) list"

definition params_set :: "string \<Rightarrow> string \<Rightarrow> URLSearchParams \<Rightarrow> URLSearchParams" where
  "params_set k v ps = AList.update k v ps"

definition hex_char :: "nat \<Rightarrow> char" where
  "hex_char n = ''0123456789ABCDEF'' ! n"

definition urlencode_char :: "char \<Rightarrow> string" where
  "urlencode_char c =
     (let n = (of_char c :: nat)
      in if c = CHR '' '' then ''+''
         else if (48 \<le> n \<and> n \<le> 57) \<or> (65 \<le> n \<and> n \<le> 90) \<or> (97 \<le> n \<and> n \<le> 122)
                 \<or> c \<in> set ''*-._''
         then [c]
         else [CHR ''%'', hex_char (n div 16), hex_char (n mod 16)])"

definition urlencode :: "string \<Rightarrow> string" where
  "urlencode s = concat (map urlencode_char s)"

fun join_amp :: "string list \<Rightarrow> string" where
  "join_amp [] = []"
| "join_amp [x] = x"
| "join_amp (x # y # ys) = x @ ''&'' @ join_amp (y # ys)"

definition params_toString :: "URLSearchParams \<Rightarrow> string" where
  "params_toString ps = join_amp (map (\<lambda>(k, v). urlencode k @ ''='' @ urlencode v) ps)"


definition set_if_truthy :: "string \<Rightarrow> string option \<Rightarrow> URLSearchParams \<Rightarrow> URLSearchParams" where
  "set_if_truthy k x params =
     (case x of
        None \<Rightarrow> params
      | Some v \<Rightarrow> if v \<noteq> [] then params_set k v params else params)"

subsection \<open>Requests, responses and the network\<close>

record File =
  name :: string
  size' :: nat

record RateLookupRequest =
  origin :: string
  destination :: string
  mode :: string
  weight_kg :: "rat option"
  is_dangerous_goods :: "bool option"

datatype http_method = GET | POST | PATCH

datatype req_body =
    JSON_stringify RateLookupRequest
  | FormData "(string \<times> File) list"

record RequestInit =
  method' :: "http_method option"
  headers :: "(string \<times> string) list"
  body :: "req_body option"

text \<open>The method \<^verbatim>\<open>fetch\<close> uses for a \<^verbatim>\<open>RequestInit\<close>: GET unless one is given.\<close>

definition request_method :: "RequestInit \<Rightarrow> http_method" where
  "request_method init = (case method' init of None \<Rightarrow> GET | Some m \<Rightarrow> m)"

text \<open>Object spread \<^verbatim>\<open>{...a, ...b}\<close> on objects kept as association lists.\<close>

definition obj_spread :: "(string \<times> string) list \<Rightarrow> (string \<times> string) list \<Rightarrow> (string \<times> string) list" where
  "obj_spread a b = fold (\<lambda>(k, v). AList.update k v) b a"

datatype js_error = Error string | TypeError string | SyntaxError string

fun message :: "js_error \<Rightarrow> string" where
  "message (Error m) = m"
| "message (TypeError m) = m"
| "message (SyntaxError m) = m"

text \<open>
  A \<^verbatim>\<open>Response\<close>: \<^verbatim>\<open>ok\<close>, \<^verbatim>\<open>status\<close>, and what awaiting \<^verbatim>\<open>text()\<close> and \<^verbatim>\<open>json()\<close>
  gives, each of which may reject. \<^verbatim>\<open>json()\<close> is typed by the result type at which
  \<^verbatim>\<open>fetchApi<T>\<close> is used.
\<close>

record 'a Response =
  ok :: bool
  status :: nat
  text' :: "js_error + string"
  json :: "js_error + 'a"

text \<open>
  \<^verbatim>\<open>fetch(url, init)\<close> acts on the world outside the client (network and backend), of
  type \<open>'w\<close>: it returns the response, or the rejection, and the world after the
  request. An awaited call is one step.
\<close>

type_synonym ('w, 'a) fetch = "string \<Rightarrow> RequestInit \<Rightarrow> 'w \<Rightarrow> (js_error + 'a Response) \<times> 'w"

text \<open>A network that also records every request made of it.\<close>

definition logged :: "('w, 'a) fetch \<Rightarrow> ((string \<times> RequestInit) list \<times> 'w, 'a) fetch" where
  "logged fetch url init lw =
     (case lw of (reqs, w) \<Rightarrow>
        (case fetch url init w of (r, w') \<Rightarrow> (r, (reqs @ [(url, init)], w'))))"

text \<open>
  \<^verbatim>\<open>const API_URL = process.env.NEXT_PUBLIC_API_URL || "http://localhost:8000"\<close>, as a
  function of the environment variable. The client functions below take its value as
  their argument \<open>base\<close>.
\<close>

definition API_URL :: "string option \<Rightarrow> string" where
  "API_URL env =
     (case env of
        None \<Rightarrow> ''http://localhost:8000''
      | Some u \<Rightarrow> if u \<noteq> [] then u else ''http://localhost:8000'')"

definition no_options :: RequestInit where
  "no_options = \<lparr> method' = None, headers = [], body = None \<rparr>"

definition fetchApi ::
  "('w, 'a) fetch \<Rightarrow> string \<Rightarrow> string \<Rightarrow> RequestInit \<Rightarrow> 'w \<Rightarrow> (js_error + 'a) \<times> 'w" where
  "fetchApi fetch base endpoint options w =
     (case fetch (base @ endpoint)
             (options \<lparr> headers :=
                obj_spread [(''Content-Type'', ''application/json'')] (headers options) \<rparr>) w of
        (Inl rejection, w') \<Rightarrow> (Inl rejection, w')
      | (Inr response, w') \<Rightarrow>
          if \<not> ok response then
            (case text' response of
               Inl rejection \<Rightarrow> (Inl rejection, w')
             | Inr error \<Rightarrow>
                 (Inl (Error (if error \<noteq> [] then error
                              else ''API error: '' @ String_nat (Response.status response))), w'))
          else (json response, w'))"

subsection \<open>Dashboard\<close>

record DashboardOverview =
  by_status :: "(string \<times> nat) list"
  total :: nat
  urgent_count :: nat

definition getDashboardOverview ::
  "('w, 'a) fetch \<Rightarrow> string \<Rightarrow> 'w \<Rightarrow> (js_error + 'a) \<times> 'w" where
  "getDashboardOverview fetch base w = fetchApi fetch base ''/api/dashboard/overview'' no_options w"

text \<open>
  \<^verbatim>\<open>getSLAAlerts(includeBreached = true, approachingHours = 2)\<close>: an argument left out
  is \<open>None\<close>.
\<close>

definition getSLAAlerts ::
  "('w, 'a) fetch \<Rightarrow> string \<Rightarrow> bool option \<Rightarrow> int option \<Rightarrow> 'w \<Rightarrow> (js_error + 'a) \<times> 'w" where
  "getSLAAlerts fetch base includeBreached' approachingHours' w =
     (let includeBreached = (case includeBreached' of None \<Rightarrow> True | Some b \<Rightarrow> b);
          approachingHours = (case approachingHours' of None \<Rightarrow> 2 | Some h \<Rightarrow> h);
          params = [(''include_breached'', String_bool includeBreached),
                    (''approaching_hours'', String_int approachingHours)]
      in fetchApi fetch base (''/api/dashboard/sla-alerts?'' @ params_toString params) no_options w)"

subsection \<open>RFQs\<close>


definition query_of :: "URLSearchParams \<Rightarrow> string" where
  "query_of params = (if params_toString params \<noteq> [] then ''?'' @ params_toString params else [])"


definition uploadRFQ ::
  "('w, 'a) fetch \<Rightarrow> string \<Rightarrow> File \<Rightarrow> 'w \<Rightarrow> (js_error + 'a) \<times> 'w" where
  "uploadRFQ fetch base file w =
     (let formData = [(''file'', file)]
      in case fetch (base @ ''/api/rfqs/upload'')
                \<lparr> method' = Some POST, headers = [], body = Some (FormData formData) \<rparr> w of
           (Inl rejection, w') \<Rightarrow> (Inl rejection, w')
         | (Inr response, w') \<Rightarrow>
             if \<not> ok response then
               (case text' response of
                  Inl rejection \<Rightarrow> (Inl rejection, w')
                | Inr error \<Rightarrow>
                    (Inl (Error (if error \<noteq> [] then error
                                 else ''Upload failed: '' @ String_nat (Response.status response))), w'))
             else (json response, w'))"

definition approveRFQ ::
  "('w, 'a) fetch \<Rightarrow> string \<Rightarrow> string \<Rightarrow> 'w \<Rightarrow> (js_error + 'a) \<times> 'w" where
  "approveRFQ fetch base rfqId w =
     fetchApi fetch base (''/api/rfqs/'' @ rfqId @ ''/approve'')
       \<lparr> method' = Some POST, headers = [], body = None \<rparr> w"

subsection \<open>Rates\<close>

record RateFilters =
  mode :: "string option"
  origin :: "string option"
  destination :: "string option"
  status :: "string option"

text \<open>\<^verbatim>\<open>listRates(filters?)\<close>: \<^verbatim>\<open>filters?.mode\<close> of an absent \<open>filters\<close> is undefined.\<close>

definition listRates_params :: "RateFilters option \<Rightarrow> URLSearchParams" where
  "listRates_params filters =
     (let mode' = (case filters of None \<Rightarrow> None | Some f \<Rightarrow> RateFilters.mode f);
          origin' = (case filters of None \<Rightarrow> None | Some f \<Rightarrow> RateFilters.origin f);
          destination' = (case filters of None \<Rightarrow> None | Some f \<Rightarrow> RateFilters.destination f);
          status' = (case filters of None \<Rightarrow> None | Some f \<Rightarrow> RateFilters.status f);
          params = [];
          params = set_if_truthy ''mode'' mode' params;
          params = set_if_truthy ''origin'' origin' params;
          params = set_if_truthy ''destination'' destination' params;
          params = set_if_truthy ''status'' status' params
      in params)"

definition listRates ::
  "('w, 'a) fetch \<Rightarrow> string \<Rightarrow> RateFilters option \<Rightarrow> 'w \<Rightarrow> (js_error + 'a) \<times> 'w" where
  "listRates fetch base filters w =
     fetchApi fetch base (''/api/rates'' @ query_of (listRates_params filters)) no_options w"

definition lookupRate ::
  "('w, 'a) fetch \<Rightarrow> string \<Rightarrow> RateLookupRequest \<Rightarrow> 'w \<Rightarrow> (js_error + 'a) \<times> 'w" where
  "lookupRate fetch base request w =
     fetchApi fetch base ''/api/rates/lookup''
       \<lparr> method' = Some POST, headers = [], body = Some (JSON_stringify request) \<rparr> w"


section \<open>The response types of lib/api\<close>

record AuditLogEntry =
  id' :: nat
  rfq_id :: string
  event :: string
  old_value :: "string option"
  new_value :: "string option"
  timestamp :: js_date

record RFQDetail = RFQListItem +
  customer_email :: "string option"
  parsed_email_json :: "string option"
  parsed_cipl_json :: "string option"
  parsed_msds_json :: "string option"
  rate_id :: "string option"
  rate_amount :: "rat option"
  rate_currency :: "string option"
  estimated_cost :: "rat option"
  odoo_sale_order_id :: "int option"
  email_file_path :: "string option"
  attachment_paths_json :: "string option"
  sla_target_hours :: "rat option"
  sla_breached_at :: "js_date option"
  parsing_completed_at :: "js_date option"
  rate_found_at :: "js_date option"
  quote_drafted_at :: "js_date option"
  quote_sent_at :: "js_date option"
  updated_at :: "js_date option"
  audit_log :: "AuditLogEntry list"

record SLAAlert =
  rfq_id :: string
  rfq_reference :: "string option"
  customer_name :: "string option"
  subject :: "string option"
  status :: string
  urgency :: string
  sla_deadline_at :: js_date
  hours_remaining :: rat
  sla_target_hours :: rat
  assigned_agent :: "string option"
  sla_breached_at :: "js_date option"

record SLASummary =
  breached_count :: nat
  approaching_count :: nat
  on_track_count :: nat
  total_open :: nat

record SLAAlerts =
  summary :: SLASummary
  breached :: "SLAAlert list option"
  approaching :: "SLAAlert list"
  on_track_count :: nat

record RateLookupResponse =
  found :: bool
  match_type :: string
  rate :: "Rate option"
  estimated_cost :: "rat option"
  confidence :: rat
  message' :: string


section \<open>DashboardPage\<close>

record DashboardState =
  overview :: "DashboardOverview option"
  slaAlerts :: "SLAAlerts option"
  expiringRates :: "Rate list"
  loading :: bool

definition DashboardPage_initial :: DashboardState where
  "DashboardPage_initial =
     \<lparr> overview = None, slaAlerts = None, expiringRates = [], loading = True \<rparr>"

text \<open>
  The three calls under \<^verbatim>\<open>Promise.all\<close>, started in the order written:
  \<^verbatim>\<open>getDashboardOverview()\<close>, \<^verbatim>\<open>getSLAAlerts()\<close>, \<^verbatim>\<open>listRates({ status: "ACTIVE" })\<close>.
  The network is passed once for each result type.
\<close>

definition fetchData_results ::
  "('w, DashboardOverview) fetch \<Rightarrow> ('w, SLAAlerts) fetch \<Rightarrow> ('w, Rate list) fetch \<Rightarrow> string \<Rightarrow> 'w
     \<Rightarrow> ((js_error + DashboardOverview) \<times> (js_error + SLAAlerts) \<times> (js_error + Rate list)) \<times> 'w" where
  "fetchData_results fetchO fetchA fetchR base w =
     (case getDashboardOverview fetchO base w of (overviewData, w1) \<Rightarrow>
      case getSLAAlerts fetchA base None None w1 of (alertsData, w2) \<Rightarrow>
      case listRates fetchR base
             (Some \<lparr> RateFilters.mode = None, RateFilters.origin = None,
                     RateFilters.destination = None, RateFilters.status = Some ''ACTIVE'' \<rparr>) w2 of
        (ratesData, w3) \<Rightarrow> ((overviewData, alertsData, ratesData), w3))"

text \<open>
  \<^verbatim>\<open>fetchData\<close> of the mount effect: on success the three setters and the filter of
  expiring rates; a rejection of any call is caught and logged to the console;
  \<^verbatim>\<open>finally\<close> clears \<open>loading\<close>.
\<close>

definition fetchData ::
  "('w, DashboardOverview) fetch \<Rightarrow> ('w, SLAAlerts) fetch \<Rightarrow> ('w, Rate list) fetch \<Rightarrow> string \<Rightarrow> int
     \<Rightarrow> DashboardState \<Rightarrow> 'w \<Rightarrow> DashboardState \<times> 'w" where
  "fetchData fetchO fetchA fetchR base now st w =
     (case fetchData_results fetchO fetchA fetchR base w of
        ((Inr overviewData, Inr alertsData, Inr ratesData), w') \<Rightarrow>
          (st \<lparr> overview := Some overviewData, slaAlerts := Some alertsData,
                expiringRates := expiring now ratesData, loading := False \<rparr>, w')
      | (_, w') \<Rightarrow> (st \<lparr> loading := False \<rparr>, w'))"

definition DashboardPage_load ::
  "('w, DashboardOverview) fetch \<Rightarrow> ('w, SLAAlerts) fetch \<Rightarrow> ('w, Rate list) fetch \<Rightarrow> string \<Rightarrow> int
     \<Rightarrow> 'w \<Rightarrow> DashboardState \<times> 'w" where
  "DashboardPage_load fetchO fetchA fetchR base now w =
     fetchData fetchO fetchA fetchR base now DashboardPage_initial w"


section \<open>UploadForm\<close>

record UploadState =
  file' :: "File option"
  dragActive :: bool
  uploading :: bool
  error :: "string option"

definition UploadForm_initial :: UploadState where
  "UploadForm_initial = \<lparr> file' = None, dragActive = False, uploading = False, error = None \<rparr>"

definition handleDrag :: "string \<Rightarrow> UploadState \<Rightarrow> UploadState" where
  "handleDrag type st =
     (if type = ''dragenter'' \<or> type = ''dragover'' then st \<lparr> dragActive := True \<rparr>
      else if type = ''dragleave'' then st \<lparr> dragActive := False \<rparr>
      else st)"

text \<open>The event's file list; \<^verbatim>\<open>files[0]\<close> exists when the list is not empty.\<close>

definition handleDrop :: "File list \<Rightarrow> UploadState \<Rightarrow> UploadState" where
  "handleDrop files st =
     (let st = st \<lparr> dragActive := False \<rparr>
      in case files of
           [] \<Rightarrow> st
         | droppedFile # _ \<Rightarrow>
             if endsWith (name droppedFile) ''.eml''
             then st \<lparr> file' := Some droppedFile, error := None \<rparr>
             else st \<lparr> error := Some ''Please upload an .eml file'' \<rparr>)"

definition handleChange :: "File list \<Rightarrow> UploadState \<Rightarrow> UploadState" where
  "handleChange files st =
     (case files of
        [] \<Rightarrow> st
      | selectedFile # _ \<Rightarrow>
          if endsWith (name selectedFile) ''.eml''
          then st \<lparr> file' := Some selectedFile, error := None \<rparr>
          else st \<lparr> error := Some ''Please upload an .eml file'' \<rparr>)"

text \<open>
  \<^verbatim>\<open>handleSubmit\<close>, with its awaited upload as one step. The second component of the
  result is the route pushed on success.
\<close>

definition handleSubmit ::
  "('w, RFQDetail) fetch \<Rightarrow> string \<Rightarrow> UploadState \<Rightarrow> 'w \<Rightarrow> (UploadState \<times> string option) \<times> 'w" where
  "handleSubmit fetch base st w =
     (case file' st of
        None \<Rightarrow> ((st, None), w)
      | Some f \<Rightarrow>
          (let st = st \<lparr> uploading := True, error := None \<rparr>
           in case uploadRFQ fetch base f w of
                (Inr result, w') \<Rightarrow>
                  ((st \<lparr> uploading := False \<rparr>, Some (''/rfqs/'' @ RFQListItem.id' result)), w')
              | (Inl err, w') \<Rightarrow>
                  ((st \<lparr> error := Some (message err), uploading := False \<rparr>, None), w')))"

text \<open>The Clear button exists while a file is selected and no upload runs.\<close>

definition handleClear :: "UploadState \<Rightarrow> UploadState" where
  "handleClear st =
     (if file' st \<noteq> None \<and> \<not> uploading st then st \<lparr> file' := None, error := None \<rparr> else st)"

datatype upload_event =
    Drag string
  | Drop "File list"
  | Change "File list"
  | Submit
  | Clear

fun UploadForm_step ::
  "('w, RFQDetail) fetch \<Rightarrow> string \<Rightarrow> UploadState \<times> 'w \<Rightarrow> upload_event \<Rightarrow> UploadState \<times> 'w" where
  "UploadForm_step fetch base (st, w) (Drag type) = (handleDrag type st, w)"
| "UploadForm_step fetch base (st, w) (Drop files) = (handleDrop files st, w)"
| "UploadForm_step fetch base (st, w) (Change files) = (handleChange files st, w)"
| "UploadForm_step fetch base (st, w) Submit =
     (case handleSubmit fetch base st w of ((st', pushed), w') \<Rightarrow> (st', w'))"
| "UploadForm_step fetch base (st, w) Clear = (handleClear st, w)"

definition UploadForm_run ::
  "('w, RFQDetail) fetch \<Rightarrow> string \<Rightarrow> upload_event list \<Rightarrow> 'w \<Rightarrow> UploadState \<times> 'w" where
  "UploadForm_run fetch base events w = foldl (UploadForm_step fetch base) (UploadForm_initial, w) events"

text \<open>A request that uploads one file whose name ends in .eml.\<close>

definition eml_upload :: "string \<Rightarrow> string \<times> RequestInit \<Rightarrow> bool" where
  "eml_upload base req =
     (case req of (url, init) \<Rightarrow>
        url = base @ ''/api/rfqs/upload'' \<and> method' init = Some POST \<and>
        (case body init of
           Some (FormData [(k, f)]) \<Rightarrow> k = ''file'' \<and> endsWith (name f) ''.eml''
         | _ \<Rightarrow> False))"


section \<open>The backend, as the specification describes it\<close>

text \<open>
  The repository's visible code is the presentation layer. The operations behind the
  REST endpoints are not part of it; the definitions of this section follow the
  specification's description of them.
\<close>

text \<open>
  Modelled from the spec: the error taxonomy of the backend (missing): "ValidationError,
  NotFound, InvalidStateTransition, Timeout, Conflict".
\<close>

datatype api_error = ValidationError | NotFound | InvalidStateTransition | Timeout | Conflict

text \<open>
  Modelled from the spec: the status of a rate in the Rate Catalog (the code that computes
  it is missing). "status derived from validity window vs. current time (ACTIVE iff now
  \<in> window, else EXPIRED)", computed at query time.
\<close>

definition rate_status :: "int \<Rightarrow> Rate \<Rightarrow> string" where
  "rate_status now r =
     (case (getTime (valid_from r), getTime (valid_to r)) of
        (Some f, Some t) \<Rightarrow> if f \<le> now \<and> now \<le> t then ''ACTIVE'' else ''EXPIRED''
      | _ \<Rightarrow> ''EXPIRED'')"





text \<open>
  Modelled from the spec: the approve operation of the RFQ Lifecycle State Machine behind
  \<^verbatim>\<open>POST /rfqs/{id}/approve\<close> (the handler is missing). "quote_review \<rightarrow> sent: approve
  operation; requires status == quote_review, else fails with InvalidStateTransition;
  stamps quote_sent_at and (if present) the external quotation reference." "Every
  transition appends exactly one AuditLogEntry capturing old/new status." An RFQ that
  does not exist is NotFound. The store maps RFQ ids to RFQs, each with its audit log.
  The clock, the external quotation reference (if there is one), and the id and event
  name given to the audit entry come from outside.
\<close>

text \<open>
  Modelled from the spec: what an approval takes from outside the RFQ store (the handler
  and its collaborators are missing).
\<close>

record approve_env =
  clock :: int
  quotation :: "string option"
  entry_id :: nat
  event_name :: string

text \<open>
  Modelled from the spec: the approve operation (missing), as quoted above.
\<close>

definition approve ::
  "approve_env \<Rightarrow> string \<Rightarrow> (string \<rightharpoonup> RFQDetail) \<Rightarrow> (api_error + RFQDetail) \<times> (string \<rightharpoonup> RFQDetail)" where
  "approve env rid store =
     (case store rid of
        None \<Rightarrow> (Inl NotFound, store)
      | Some rfq \<Rightarrow>
          if RFQListItem.status rfq \<noteq> ''quote_review'' then (Inl InvalidStateTransition, store)
          else
            (let entry = \<lparr> AuditLogEntry.id' = entry_id env, AuditLogEntry.rfq_id = rid,
                            event = event_name env,
                            old_value = Some (RFQListItem.status rfq), new_value = Some ''sent'',
                            timestamp = Date (clock env) \<rparr>;
                 rfq' = rfq \<lparr> RFQListItem.status := ''sent'',
                              quote_sent_at := Some (Date (clock env)),
                              odoo_quotation_number :=
                                (case quotation env of
                                   None \<Rightarrow> odoo_quotation_number rfq
                                 | Some q \<Rightarrow> Some q),
                              audit_log := audit_log rfq @ [entry] \<rparr>
             in (Inr rfq', store (rid \<mapsto> rfq'))))"

text \<open>
  Modelled from the spec: the lookup operation of the Rate Matcher behind
  \<^verbatim>\<open>POST /rates/lookup\<close> (the handler is missing). "filter catalog to ACTIVE rates; rank
  by match tiers, strongest first: 1. exact origin+destination+mode match, 2. origin+mode
  match with destination prefix/partial match, 3. mode-only match within same broad lane.
  Confidence 1.0 for tier 1, degrading per tier; 0 and found=false if no candidate. Ties
  within a tier broken by lowest rate_per_unit, then earliest valid_to." What the
  specification leaves open (the partial-match and lane tests, the confidences and names
  of tiers 2 and 3, the messages) is a parameter.
\<close>

text \<open>
  Modelled from the spec: the points of the Rate Matcher (missing) that the specification
  leaves to the implementer.
\<close>

record matcher_choices =
  dest_partial :: "string \<Rightarrow> string \<Rightarrow> bool"
  same_lane :: "RateLookupRequest \<Rightarrow> Rate \<Rightarrow> bool"
  tier2_confidence :: rat
  tier3_confidence :: rat
  tier2_type :: string
  tier3_type :: string
  none_type :: string
  found_message :: string
  none_message :: string

text \<open>
  Modelled from the spec: tier 1 of the Rate Matcher (missing), "exact
  origin+destination+mode match".
\<close>

definition tier1 :: "RateLookupRequest \<Rightarrow> Rate \<Rightarrow> bool" where
  "tier1 req r =
     (origin_port r = RateLookupRequest.origin req
      \<and> destination_port r = RateLookupRequest.destination req
      \<and> Rate.mode r = RateLookupRequest.mode req)"

text \<open>
  Modelled from the spec: tier 2 of the Rate Matcher (missing), "origin+mode match with
  destination prefix/partial match".
\<close>

definition tier2 :: "matcher_choices \<Rightarrow> RateLookupRequest \<Rightarrow> Rate \<Rightarrow> bool" where
  "tier2 ch req r =
     (origin_port r = RateLookupRequest.origin req
      \<and> Rate.mode r = RateLookupRequest.mode req
      \<and> dest_partial ch (RateLookupRequest.destination req) (destination_port r))"

text \<open>
  Modelled from the spec: tier 3 of the Rate Matcher (missing), "mode-only match within
  same broad lane".
\<close>

definition tier3 :: "matcher_choices \<Rightarrow> RateLookupRequest \<Rightarrow> Rate \<Rightarrow> bool" where
  "tier3 ch req r = (Rate.mode r = RateLookupRequest.mode req \<and> same_lane ch req r)"

text \<open>
  Modelled from the spec: the tie-break of the Rate Matcher (missing), "lowest
  rate_per_unit (cheapest-first), then earliest valid_to".
\<close>

definition preferred :: "Rate \<Rightarrow> Rate \<Rightarrow> bool" where
  "preferred a b =
     (rate_per_unit a < rate_per_unit b
      \<or> (rate_per_unit a = rate_per_unit b
          \<and> (case (getTime (valid_to a), getTime (valid_to b)) of
                (Some ta, Some tb) \<Rightarrow> ta < tb
              | _ \<Rightarrow> False)))"

text \<open>
  Modelled from the spec: the choice of the Rate Matcher (missing) within one tier: the
  rate no other rate of the tier is preferred to; among equals, the first in the catalog.
\<close>

fun best :: "Rate list \<Rightarrow> Rate option" where
  "best [] = None"
| "best (r # rs) =
     (case best rs of
        None \<Rightarrow> Some r
      | Some b \<Rightarrow> if preferred b r then Some b else Some r)"

text \<open>
  Modelled from the spec: the cost estimate of the Rate Matcher (missing).
  "If is_dangerous_goods is true and the candidate rate defines a dg_surcharge_pct,
  estimated_cost = rate_per_unit \<times> weight_kg \<times> (1 + dg_surcharge_pct/100), floored at
  minimum_charge if present; otherwise estimated_cost = max(rate_per_unit \<times> weight_kg,
  minimum_charge ?? 0). weight_kg absent: estimated_cost is null."
\<close>

definition estimate :: "RateLookupRequest \<Rightarrow> Rate \<Rightarrow> rat option" where
  "estimate req r =
     (case weight_kg req of
        None \<Rightarrow> None
      | Some w \<Rightarrow>
          (case (RateLookupRequest.is_dangerous_goods req, dg_surcharge_pct r) of
             (Some True, Some pct) \<Rightarrow>
               (let c = rate_per_unit r * w * (1 + pct / 100)
                in case minimum_charge r of None \<Rightarrow> Some c | Some m \<Rightarrow> Some (max c m))
           | _ \<Rightarrow>
               Some (max (rate_per_unit r * w)
                         (case minimum_charge r of None \<Rightarrow> 0 | Some m \<Rightarrow> m))))"

text \<open>
  Modelled from the spec: the lookup operation (missing), as quoted above: the best rate
  of the strongest tier that has one.
\<close>

definition lookup :: "matcher_choices \<Rightarrow> int \<Rightarrow> Rate list \<Rightarrow> RateLookupRequest \<Rightarrow> RateLookupResponse" where
  "lookup ch now catalog req =
     (let active = filter (\<lambda>r. rate_status now r = ''ACTIVE'') catalog;
          answer = (\<lambda>ty c r.
            \<lparr> found = True, match_type = ty, rate = Some r,
              RateLookupResponse.estimated_cost = estimate req r, confidence = c,
              message' = found_message ch \<rparr>)
      in case best (filter (tier1 req) active) of
           Some r \<Rightarrow> answer ''exact'' 1 r
         | None \<Rightarrow>
             (case best (filter (tier2 ch req) active) of
                Some r \<Rightarrow> answer (tier2_type ch) (tier2_confidence ch) r
              | None \<Rightarrow>
                  (case best (filter (tier3 ch req) active) of
                     Some r \<Rightarrow> answer (tier3_type ch) (tier3_confidence ch) r
                   | None \<Rightarrow>
                       \<lparr> found = False, match_type = none_type ch, rate = None,
                         RateLookupResponse.estimated_cost = None, confidence = 0,
                         message' = none_message ch \<rparr>)))"

text \<open>Choices for the open points, and the request of the specification's example.\<close>

definition example_choices :: matcher_choices where
  "example_choices =
     \<lparr> dest_partial = (\<lambda>d p. take 3 d = take 3 p), same_lane = (\<lambda>req r. True),
       tier2_confidence = 6 / 10, tier3_confidence = 3 / 10,
       tier2_type = ''partial'', tier3_type = ''mode_only'', none_type = ''none'',
       found_message = ''Rate found'', none_message = ''No rate found'' \<rparr>"

definition example_request :: RateLookupRequest where
  "example_request =
     \<lparr> RateLookupRequest.origin = ''SIN'', RateLookupRequest.destination = ''PHC'',
       RateLookupRequest.mode = ''SEA'', weight_kg = Some 1000,
       RateLookupRequest.is_dangerous_goods = None \<rparr>"

section \<open>Sample data and sample networks\<close>

text \<open>
  Concrete values at which the theorems below are evaluated: two files, an RFQ, the
  parameters of an approval, dashboard payloads, a network that answers every request
  with a failure status, and one that answers every request with a payload and counts
  the requests that are not GET.
\<close>

definition example_file :: File where
  "example_file = \<lparr> name = ''rfq.eml'', size' = 2048 \<rparr>"

definition example_text_file :: File where
  "example_text_file = \<lparr> name = ''notes.txt'', size' = 10 \<rparr>"

definition example_rfq :: "string \<Rightarrow> RFQDetail" where
  "example_rfq st =
     \<lparr> RFQListItem.id' = ''rfq-1'', RFQListItem.rfq_reference = None,
       RFQListItem.customer_name = None, RFQListItem.subject = None,
       RFQListItem.status = st, RFQListItem.urgency = ''STANDARD'', shipping_mode = None,
       RFQListItem.origin = None, RFQListItem.destination = None,
       RFQListItem.is_dangerous_goods = False, odoo_quotation_number = None,
       RFQListItem.assigned_agent = None, RFQListItem.sla_deadline_at = None,
       sla_breached = False, received_at = None, RFQListItem.created_at = None,
       customer_email = None, parsed_email_json = None, parsed_cipl_json = None,
       parsed_msds_json = None, rate_id = None, rate_amount = None, rate_currency = None,
       RFQDetail.estimated_cost = None, odoo_sale_order_id = None, email_file_path = None,
       attachment_paths_json = None, RFQDetail.sla_target_hours = None,
       RFQDetail.sla_breached_at = None, parsing_completed_at = None, rate_found_at = None,
       quote_drafted_at = None, quote_sent_at = None, updated_at = None, audit_log = [] \<rparr>"

definition example_env :: approve_env where
  "example_env = \<lparr> clock = 1000, quotation = Some ''S00042'', entry_id = 1,
                   event_name = ''status_change'' \<rparr>"

definition example_overview :: DashboardOverview where
  "example_overview = \<lparr> by_status = [(''sent'', 1)], total = 1, urgent_count = 0 \<rparr>"

definition example_alerts :: SLAAlerts where
  "example_alerts =
     \<lparr> summary = \<lparr> breached_count = 0, approaching_count = 0,
                   SLASummary.on_track_count = 0, total_open = 0 \<rparr>,
       breached = None, approaching = [], SLAAlerts.on_track_count = 0 \<rparr>"

definition example_rate_min :: Rate where
  "example_rate_min = (example_rate ''ACTIVE'' (Date 0) (Date 100)) \<lparr> minimum_charge := Some 60000 \<rparr>"

definition example_rate_cheaper :: Rate where
  "example_rate_cheaper =
     (example_rate ''ACTIVE'' (Date 0) (Date 100)) \<lparr> Rate.id' := ''rate-2'', rate_per_unit := 40 \<rparr>"

definition example_rate_dearer :: Rate where
  "example_rate_dearer =
     (example_rate ''ACTIVE'' (Date 0) (Date 100)) \<lparr> Rate.id' := ''rate-3'', rate_per_unit := 60 \<rparr>"

definition example_rate_later :: Rate where
  "example_rate_later =
     (example_rate ''ACTIVE'' (Date 0) (Date 200)) \<lparr> Rate.id' := ''rate-4'' \<rparr>"

definition rejecting_fetch :: "nat \<Rightarrow> string \<Rightarrow> ('w, 'a) fetch" where
  "rejecting_fetch code txt url init w =
     (Inr \<lparr> ok = False, Response.status = code, text' = Inr txt,
            json = Inl (SyntaxError ''Unexpected end of JSON input'') \<rparr>, w)"

definition ok_fetch :: "'a \<Rightarrow> (nat, 'a) fetch" where
  "ok_fetch v url init w =
     (Inr \<lparr> ok = True, Response.status = 200, text' = Inr [], json = Inr v \<rparr>,
      if request_method init = GET then w else Suc w)"


section \<open>Notions used in the statements\<close>

text \<open>
  \<open>file_ok\<close>: the selected file of the upload form is empty or has a name ending in
  ".eml". \<open>supplied k x\<close>: the query pair of a filter \<open>x\<close> under the name \<open>k\<close>, if the
  filter is supplied (present and not empty).
\<close>

definition file_ok :: "UploadState \<Rightarrow> bool" where
  "file_ok st = (case file' st of None \<Rightarrow> True | Some f \<Rightarrow> endsWith (name f) ''.eml'')"



section \<open>Arithmetic of the day count\<close>

lemma days_zero_iff:
  "\<lceil>(of_int d :: rat) / (1000 * 60 * 60 * 24)\<rceil> = 0 \<longleftrightarrow> - 86400000 < d \<and> d \<le> 0"
proof -
  have "\<lceil>(of_int d :: rat) / 86400000\<rceil> = 0 \<longleftrightarrow> - 1 < (of_int d :: rat) / 86400000 \<and> (of_int d :: rat) / 86400000 \<le> 0"
    by (simp add: ceiling_eq_iff)
  also have "\<dots> \<longleftrightarrow> - 86400000 < (of_int d :: rat) \<and> (of_int d :: rat) \<le> 0"
    by (simp add: field_simps)
  also have "\<dots> \<longleftrightarrow> - 86400000 < d \<and> d \<le> 0"
  proof -
    have "(- 86400000 < (of_int d :: rat)) = (of_int (- 86400000) < (of_int d :: rat))" by simp
    also have "\<dots> = (- 86400000 < d)" by (simp only: of_int_less_iff)
    finally show ?thesis by simp
  qed
  finally show ?thesis by simp
qed


lemma hours_lt0_iff: "(of_int d :: rat) / (1000 * 60 * 60) < 0 \<longleftrightarrow> d < 0"
  by (simp add: field_simps)

lemma hours_le2_iff: "(of_int d :: rat) / (1000 * 60 * 60) \<le> 2 \<longleftrightarrow> d \<le> 7200000"
proof -
  have "(of_int d :: rat) / (1000 * 60 * 60) \<le> 2 \<longleftrightarrow> (of_int d :: rat) \<le> of_int 7200000"
    by (simp add: field_simps)
  also have "\<dots> \<longleftrightarrow> d \<le> 7200000" by (simp only: of_int_le_iff)
  finally show ?thesis .
qed

lemma hours_le8_iff: "(of_int d :: rat) / (1000 * 60 * 60) \<le> 8 \<longleftrightarrow> d \<le> 28800000"
proof -
  have "(of_int d :: rat) / (1000 * 60 * 60) \<le> 8 \<longleftrightarrow> (of_int d :: rat) \<le> of_int 28800000"
    by (simp add: field_simps)
  also have "\<dots> \<longleftrightarrow> d \<le> 28800000" by (simp only: of_int_le_iff)
  finally show ?thesis .
qed

lemma SLABadge_valid:
  "SLABadge now (Some (Date t)) flag =
     (if flag \<or> t < now then Breached
      else if t \<le> now + 7200000 then HoursLeftOrange (Some (of_int (t - now) / 3600000))
      else if t \<le> now + 28800000 then HoursLeftYellow (Some (of_int (t - now) / 3600000))
      else OnTrack)"
proof -
  have h: "hoursRemaining now (Date t) = Some (of_int (t - now) / (1000 * 60 * 60))"
    by (simp add: hoursRemaining_def)
  have a: "js_lt (hoursRemaining now (Date t)) 0 \<longleftrightarrow> t < now"
  proof -
    have "js_lt (hoursRemaining now (Date t)) 0 \<longleftrightarrow> t - now < 0"
      unfolding h js_lt_def option.case by (rule hours_lt0_iff)
    also have "\<dots> \<longleftrightarrow> t < now" by linarith
    finally show ?thesis .
  qed
  have b: "js_le (hoursRemaining now (Date t)) 2 \<longleftrightarrow> t \<le> now + 7200000"
  proof -
    have "js_le (hoursRemaining now (Date t)) 2 \<longleftrightarrow> t - now \<le> 7200000"
      unfolding h js_le_def option.case by (rule hours_le2_iff)
    also have "\<dots> \<longleftrightarrow> t \<le> now + 7200000" by linarith
    finally show ?thesis .
  qed
  have c: "js_le (hoursRemaining now (Date t)) 8 \<longleftrightarrow> t \<le> now + 28800000"
  proof -
    have "js_le (hoursRemaining now (Date t)) 8 \<longleftrightarrow> t - now \<le> 28800000"
      unfolding h js_le_def option.case by (rule hours_le8_iff)
    also have "\<dots> \<longleftrightarrow> t \<le> now + 28800000" by linarith
    finally show ?thesis .
  qed
  have d: "hoursRemaining now (Date t) = Some (of_int (t - now) / 3600000)"
    by (simp add: hoursRemaining_def)
  show ?thesis
    unfolding SLABadge_def Let_def option.case a b c by (simp add: d)
qed

lemma SLABadge_invalid:
  "SLABadge now (Some InvalidDate) flag = (if flag then Breached else OnTrack)"
  by (simp add: SLABadge_def hoursRemaining_def js_lt_def js_le_def)


lemma String_nat_500: "String_nat 500 = ''500''"
  by (simp add: String_nat.simps digit_char_def)

lemma String_int_2: "String_int 2 = ''2''"
  by (simp add: String_int_def String_nat.simps digit_char_def)

lemma alerts_query:
  "params_toString [(''include_breached'', String_bool True), (''approaching_hours'', String_int 2)]
     = ''include_breached=true&approaching_hours=2''"
  by (simp add: params_toString_def urlencode_def urlencode_char_def String_bool_def String_int_2)

lemma active_query:
  "query_of (listRates_params (Some \<lparr> RateFilters.mode = None, RateFilters.origin = None,
                     RateFilters.destination = None, RateFilters.status = Some ''ACTIVE'' \<rparr>))
     = ''?status=ACTIVE''"
  by (simp add: query_of_def listRates_params_def set_if_truthy_def params_set_def
      params_toString_def urlencode_def urlencode_char_def)

lemma fetchApi_logged:
  "fetchApi (logged fetch) base ep opts (reqs, w) =
     (case fetchApi fetch base ep opts w of
        (r, w') \<Rightarrow>
          (r, (reqs @ [(base @ ep,
                 opts \<lparr> headers := obj_spread [(''Content-Type'', ''application/json'')] (headers opts) \<rparr>)],
               w')))"
  by (simp add: fetchApi_def logged_def split: prod.splits sum.splits)

lemma uploadRFQ_logged:
  "uploadRFQ (logged fetch) base f (reqs, w) =
     (case uploadRFQ fetch base f w of
        (r, w') \<Rightarrow>
          (r, (reqs @ [(base @ ''/api/rfqs/upload'',
                 \<lparr> method' = Some POST, headers = [], body = Some (FormData [(''file'', f)]) \<rparr>)],
               w')))"
  by (simp add: uploadRFQ_def logged_def split: prod.splits sum.splits)


lemma fetchData_results_logged:
  "fetchData_results (logged fO) (logged fA) (logged fR) base (reqs, w) =
     (case fetchData_results fO fA fR base w of
        (res, w') \<Rightarrow>
          (res,
           (reqs @
            [(base @ ''/api/dashboard/overview'',
              \<lparr> method' = None, headers = [(''Content-Type'', ''application/json'')], body = None \<rparr>),
             (base @ ''/api/dashboard/sla-alerts?include_breached=true&approaching_hours=2'',
              \<lparr> method' = None, headers = [(''Content-Type'', ''application/json'')], body = None \<rparr>),
             (base @ ''/api/rates?status=ACTIVE'',
              \<lparr> method' = None, headers = [(''Content-Type'', ''application/json'')], body = None \<rparr>)],
            w')))"
  by (simp add: fetchData_results_def getDashboardOverview_def getSLAAlerts_def listRates_def
      fetchApi_logged alerts_query active_query no_options_def obj_spread_def
      split: prod.splits)

lemma fetchData_snd:
  "snd (fetchData fO fA fR base now st w) = snd (fetchData_results fO fA fR base w)"
  by (simp add: fetchData_def split: prod.splits sum.splits)

lemma fetchApi_safe:
  assumes "\<forall>url init v. request_method init = GET \<longrightarrow> snd (fetch url init v) = v"
    and "method' opts = None"
    and "fetchApi fetch base ep opts w = (r, w')"
  shows "w' = w"
proof -
  let ?init = "opts \<lparr> headers := obj_spread [(''Content-Type'', ''application/json'')] (headers opts) \<rparr>"
  have "request_method ?init = GET"
    using assms(2) by (simp add: request_method_def)
  with assms(1) have "snd (fetch (base @ ep) ?init w) = w" by blast
  with assms(3) show ?thesis
    by (auto simp add: fetchApi_def split: prod.splits sum.splits if_splits)
qed

lemma fetchData_results_safe:
  assumes "\<forall>url init v. request_method init = GET \<longrightarrow> snd (fO url init v) = v"
    and "\<forall>url init v. request_method init = GET \<longrightarrow> snd (fA url init v) = v"
    and "\<forall>url init v. request_method init = GET \<longrightarrow> snd (fR url init v) = v"
  shows "snd (fetchData_results fO fA fR base w) = w"
proof -
  have m: "method' no_options = None" by (simp add: no_options_def)
  obtain r1 w1 where 1: "getDashboardOverview fO base w = (r1, w1)"
    by (cases "getDashboardOverview fO base w")
  obtain r2 w2 where 2: "getSLAAlerts fA base None None w1 = (r2, w2)"
    by (cases "getSLAAlerts fA base None None w1")
  let ?fs = "Some \<lparr> RateFilters.mode = None, RateFilters.origin = None,
                     RateFilters.destination = None, RateFilters.status = Some ''ACTIVE'' \<rparr>"
  obtain r3 w3 where 3: "listRates fR base ?fs w2 = (r3, w3)"
    by (cases "listRates fR base ?fs w2")
  have "w1 = w"
    using 1 unfolding getDashboardOverview_def by (rule fetchApi_safe [OF assms(1) m])
  moreover have "w2 = w1"
    using 2 unfolding getSLAAlerts_def Let_def option.case by (rule fetchApi_safe [OF assms(2) m])
  moreover have "w3 = w2"
    using 3 unfolding listRates_def by (rule fetchApi_safe [OF assms(3) m])
  ultimately show ?thesis
    using 1 2 3 by (simp add: fetchData_results_def)
qed

lemma file_ok_handlers:
  "file_ok st \<Longrightarrow> file_ok (handleDrag ty st)"
  "file_ok st \<Longrightarrow> file_ok (handleDrop fs st)"
  "file_ok st \<Longrightarrow> file_ok (handleChange fs st)"
  "file_ok st \<Longrightarrow> file_ok (handleClear st)"
  by (auto simp add: file_ok_def handleDrag_def handleDrop_def handleChange_def handleClear_def
      Let_def split: list.splits)

lemma handleSubmit_file:
  "file' (fst (fst (handleSubmit fetch base st w))) = file' st"
  by (simp add: handleSubmit_def Let_def split: option.splits prod.splits sum.splits)

lemma handleSubmit_requests:
  assumes "file_ok st" and "list_all (eml_upload base) reqs"
  shows "list_all (eml_upload base) (fst (snd (handleSubmit (logged fetch) base st (reqs, w))))"
proof (cases "file' st")
  case None
  with assms(2) show ?thesis by (simp add: handleSubmit_def)
next
  case (Some f)
  with assms(1) have "endsWith (name f) ''.eml''" by (simp add: file_ok_def)
  with assms(2) Some show ?thesis
    by (simp add: handleSubmit_def Let_def uploadRFQ_logged eml_upload_def
        split: prod.splits sum.splits)
qed

lemma step_invariant:
  assumes "file_ok st" and "list_all (eml_upload base) reqs"
  shows "file_ok (fst (UploadForm_step (logged fetch) base (st, (reqs, w)) ev))
       \<and> list_all (eml_upload base) (fst (snd (UploadForm_step (logged fetch) base (st, (reqs, w)) ev)))"
proof (cases ev)
  case Submit
  obtain st' p reqs' w' where
    h: "handleSubmit (logged fetch) base st (reqs, w) = ((st', p), (reqs', w'))"
    by (cases "handleSubmit (logged fetch) base st (reqs, w)") auto
  have "file' st' = file' st"
    using handleSubmit_file [of "logged fetch" base st "(reqs, w)"] h by simp
  with assms(1) have "file_ok st'" by (simp add: file_ok_def)
  moreover have "list_all (eml_upload base) reqs'"
    using handleSubmit_requests [OF assms, of fetch w] h by simp
  ultimately show ?thesis
    using Submit h by simp
qed (use assms in \<open>simp_all add: file_ok_handlers\<close>)

lemma run_invariant:
  assumes "file_ok st" and "list_all (eml_upload base) reqs"
  shows "file_ok (fst (foldl (UploadForm_step (logged fetch) base) (st, (reqs, w)) events))
       \<and> list_all (eml_upload base)
            (fst (snd (foldl (UploadForm_step (logged fetch) base) (st, (reqs, w)) events)))"
  using assms
proof (induction events arbitrary: st reqs w)
  case Nil
  then show ?case by simp
next
  case (Cons ev events)
  obtain st' reqs' w' where s: "UploadForm_step (logged fetch) base (st, (reqs, w)) ev = (st', (reqs', w'))"
    by (cases "UploadForm_step (logged fetch) base (st, (reqs, w)) ev") auto
  from step_invariant [OF Cons.prems, of fetch w ev] s
  have "file_ok st'" and "list_all (eml_upload base) reqs'" by simp_all
  from Cons.IH [OF this] s show ?case by simp
qed

lemma step_file_logged:
  "fst (UploadForm_step (logged fetch) base (st, (reqs, w)) ev) = fst (UploadForm_step fetch base (st, w) ev)
   \<and> snd (snd (UploadForm_step (logged fetch) base (st, (reqs, w)) ev)) = snd (UploadForm_step fetch base (st, w) ev)"
  by (cases ev)
    (simp_all add: handleSubmit_def Let_def uploadRFQ_logged
      split: option.splits prod.splits sum.splits)

lemma run_file_logged:
  "fst (foldl (UploadForm_step (logged fetch) base) (st, (reqs, w)) events)
     = fst (foldl (UploadForm_step fetch base) (st, w) events)"
proof (induction events arbitrary: st reqs w)
  case Nil
  show ?case by simp
next
  case (Cons ev events)
  obtain st' reqs' w' where s: "UploadForm_step (logged fetch) base (st, (reqs, w)) ev = (st', (reqs', w'))"
    by (cases "UploadForm_step (logged fetch) base (st, (reqs, w)) ev") auto
  with step_file_logged [of fetch base st reqs w ev]
  have "UploadForm_step fetch base (st, w) ev = (st', w')"
    by (cases "UploadForm_step fetch base (st, w) ev") simp
  with s Cons.IH [of st' reqs' w'] show ?case by simp
qed

lemma best_None: "best xs = None \<longleftrightarrow> xs = []"
  by (induction xs) (auto split: option.splits)

lemma best_mem: "best xs = Some b \<Longrightarrow> b \<in> set xs"
  by (induction xs arbitrary: b) (auto split: option.splits if_splits)

lemma tier1_dg: "tier1 (req \<lparr> RateLookupRequest.is_dangerous_goods := dg \<rparr>) r = tier1 req r"
  by (simp add: tier1_def)

lemma urlencode_eq_nonempty: "urlencode k @ ''='' @ urlencode v \<noteq> []"
  by simp








lemma urlencode_digit: "n < 10 \<Longrightarrow> urlencode_char (digit_char n) = [digit_char n]"
proof -
  assume "n < 10"
  then have "n \<in> {0, 1, 2, 3, 4, 5, 6, 7, 8, 9}"
    by auto
  then show ?thesis
    by (elim insertE emptyE) (simp_all add: digit_char_def urlencode_char_def)
qed

lemma urlencode_append: "urlencode (xs @ ys) = urlencode xs @ urlencode ys"
  by (simp add: urlencode_def)

lemma urlencode_String_nat: "urlencode (String_nat n) = String_nat n"
proof (induction n rule: String_nat.induct)
  case (1 n)
  show ?case
  proof (cases "n < 10")
    case True
    then show ?thesis
      by (subst (1 2) String_nat.simps) (simp add: urlencode_def urlencode_digit)
  next
    case False
    have m: "n mod 10 < 10" by simp
    from False 1 have ih: "urlencode (String_nat (n div 10)) = String_nat (n div 10)" by simp
    have "urlencode [digit_char (n mod 10)] = [digit_char (n mod 10)]"
      using urlencode_digit [OF m] by (simp add: urlencode_def)
    with False ih show ?thesis
      by (subst (1 2) String_nat.simps) (simp add: urlencode_append)
  qed
qed

lemma urlencode_String_int: "urlencode (String_int i) = String_int i"
proof -
  have "urlencode ''-'' = ''-''" by (simp add: urlencode_def urlencode_char_def)
  then show ?thesis
    by (simp add: String_int_def urlencode_append urlencode_String_nat del: append.simps)
qed

lemma urlencode_String_bool: "urlencode (String_bool b) = String_bool b"
  by (simp add: String_bool_def urlencode_def urlencode_char_def)

lemma alerts_query_general:
  "params_toString [(''include_breached'', String_bool b), (''approaching_hours'', String_int h)]
     = ''include_breached='' @ String_bool b @ ''&approaching_hours='' @ String_int h"
proof -
  have k1: "urlencode ''include_breached'' = ''include_breached''"
    by (simp add: urlencode_def urlencode_char_def)
  have k2: "urlencode ''approaching_hours'' = ''approaching_hours''"
    by (simp add: urlencode_def urlencode_char_def)
  show ?thesis
    unfolding params_toString_def list.map prod.case join_amp.simps k1 k2
      urlencode_String_bool urlencode_String_int
    by simp
qed

lemma String_int_5: "String_int 5 = ''5''"
  by (simp add: String_int_def String_nat.simps digit_char_def)

lemma getSLAAlerts_request:
  "fst (snd (getSLAAlerts (logged fetch) base ib ah ([], w))) =
       [(base @ ''/api/dashboard/sla-alerts?include_breached=''
              @ String_bool (case ib of None \<Rightarrow> True | Some b \<Rightarrow> b)
              @ ''&approaching_hours=''
              @ String_int (case ah of None \<Rightarrow> 2 | Some h \<Rightarrow> h),
         \<lparr> method' = None, headers = [(''Content-Type'', ''application/json'')], body = None \<rparr>)]"
  by (simp add: getSLAAlerts_def Let_def alerts_query_general fetchApi_logged no_options_def
      obj_spread_def split: prod.splits)


lemma best_cheapest: "best xs = Some b \<Longrightarrow> x \<in> set xs \<Longrightarrow> rate_per_unit b \<le> rate_per_unit x"
proof (induction xs arbitrary: b)
  case Nil
  then show ?case by simp
next
  case (Cons r rs)
  show ?case
  proof (cases "best rs")
    case None
    then have "rs = []" by (simp add: best_None)
    with Cons.prems None show ?thesis by simp
  next
    case (Some b')
    note ih = Cons.IH [OF Some]
    show ?thesis
    proof (cases "preferred b' r")
      case True
      with Some Cons.prems(1) have b: "b = b'" by simp
      from True have "rate_per_unit b' \<le> rate_per_unit r" by (auto simp add: preferred_def)
      with b ih Cons.prems(2) show ?thesis by auto
    next
      case False
      with Some Cons.prems(1) have b: "b = r" by simp
      from False have le: "rate_per_unit r \<le> rate_per_unit b'" by (auto simp add: preferred_def)
      show ?thesis
      proof (cases "x = r")
        case True
        with b show ?thesis by simp
      next
        case False
        with Cons.prems(2) have "x \<in> set rs" by simp
        from ih [OF this] le b show ?thesis by simp
      qed
    qed
  qed
qed

lemma days_nonneg_iff:
  "0 \<le> \<lceil>(of_int d :: rat) / (1000 * 60 * 60 * 24)\<rceil> \<longleftrightarrow> - 86400000 < d"
proof -
  have "0 \<le> \<lceil>(of_int d :: rat) / 86400000\<rceil> \<longleftrightarrow> - 1 < (of_int d :: rat) / 86400000"
    by (simp add: le_ceiling_iff)
  also have "\<dots> \<longleftrightarrow> - 86400000 < (of_int d :: rat)"
    by (simp add: field_simps)
  also have "\<dots> \<longleftrightarrow> - 86400000 < d"
  proof -
    have "(- 86400000 < (of_int d :: rat)) = (of_int (- 86400000) < (of_int d :: rat))" by simp
    also have "\<dots> = (- 86400000 < d)" by (simp only: of_int_less_iff)
    finally show ?thesis .
  qed
  finally show ?thesis by simp
qed

lemma days_le7_iff:
  "\<lceil>(of_int d :: rat) / (1000 * 60 * 60 * 24)\<rceil> \<le> 7 \<longleftrightarrow> d \<le> 604800000"
proof -
  have "\<lceil>(of_int d :: rat) / 86400000\<rceil> \<le> 7 \<longleftrightarrow> (of_int d :: rat) / 86400000 \<le> 7"
    by (simp add: ceiling_le_iff)
  also have "\<dots> \<longleftrightarrow> (of_int d :: rat) \<le> 604800000"
    by (simp add: field_simps)
  also have "\<dots> \<longleftrightarrow> d \<le> 604800000"
  proof -
    have "((of_int d :: rat) \<le> 604800000) = ((of_int d :: rat) \<le> of_int 604800000)" by simp
    also have "\<dots> = (d \<le> 604800000)" by (simp only: of_int_le_iff)
    finally show ?thesis .
  qed
  finally show ?thesis by simp
qed

lemma expiring_filter:
  "expiring now ratesData =
     filter (\<lambda>r. case getDaysUntilExpiry now (valid_to r) of
                   None \<Rightarrow> False
                 | Some d \<Rightarrow> 0 \<le> d \<and> d \<le> 7) ratesData"
  unfolding expiring_def
  by (rule filter_cong) (auto simp add: js_le_def js_ge_def split: option.splits)

lemma kept_iff:
  "(js_le (getDaysUntilExpiry now (Date t)) 7 \<and> js_ge (getDaysUntilExpiry now (Date t)) 0)
     \<longleftrightarrow> now - 86400000 < t \<and> t \<le> now + 604800000"
proof -
  have a: "js_le (getDaysUntilExpiry now (Date t)) 7 \<longleftrightarrow> t - now \<le> 604800000"
    unfolding getDaysUntilExpiry_def getTime.simps option.case Let_def js_le_def
    by (rule days_le7_iff)
  have b: "js_ge (getDaysUntilExpiry now (Date t)) 0 \<longleftrightarrow> - 86400000 < t - now"
    unfolding getDaysUntilExpiry_def getTime.simps option.case Let_def js_ge_def
    by (rule days_nonneg_iff)
  show ?thesis unfolding a b by linarith
qed

lemma expiring_member:
  "valid_to r = Date t \<Longrightarrow>
     r \<in> set (expiring now ratesData) \<longleftrightarrow>
       r \<in> set ratesData \<and> now - 86400000 < t \<and> t \<le> now + 604800000"
  using kept_iff [of now t] by (auto simp add: expiring_def)

lemma preferred_irrefl: "\<not> preferred a a"
  by (simp add: preferred_def split: option.splits)

lemma preferred_asym: "preferred a b \<Longrightarrow> \<not> preferred b a"
  by (auto simp add: preferred_def split: option.splits)

lemma preferred_negtrans:
  "getTime (valid_to a) \<noteq> None \<Longrightarrow> getTime (valid_to b) \<noteq> None \<Longrightarrow> getTime (valid_to c) \<noteq> None
   \<Longrightarrow> \<not> preferred a b \<Longrightarrow> \<not> preferred b c \<Longrightarrow> \<not> preferred a c"
  by (auto simp add: preferred_def split: option.splits)

lemma active_valid_to: "rate_status now r = ''ACTIVE'' \<Longrightarrow> getTime (valid_to r) \<noteq> None"
  by (auto simp add: rate_status_def split: option.splits if_splits)

lemma best_not_preferred:
  "best xs = Some b \<Longrightarrow> \<forall>y \<in> set xs. getTime (valid_to y) \<noteq> None \<Longrightarrow> x \<in> set xs
   \<Longrightarrow> \<not> preferred x b"
proof (induction xs arbitrary: b x)
  case Nil
  then show ?case by simp
next
  case (Cons r rs)
  show ?case
  proof (cases "best rs")
    case None
    then have "rs = []" by (simp add: best_None)
    with Cons.prems None show ?thesis by (simp add: preferred_irrefl)
  next
    case (Some b')
    from best_mem [OF Some] Cons.prems(2) have vb: "getTime (valid_to b') \<noteq> None" by simp
    from Cons.prems(2) have vr: "getTime (valid_to r) \<noteq> None" by simp
    from Cons.prems(2) have vrs: "\<forall>y \<in> set rs. getTime (valid_to y) \<noteq> None" by simp
    show ?thesis
    proof (cases "preferred b' r")
      case True
      with Some Cons.prems(1) have b: "b = b'" by simp
      show ?thesis
      proof (cases "x = r")
        case True
        with \<open>preferred b' r\<close> b show ?thesis by (simp add: preferred_asym)
      next
        case False
        with Cons.prems(3) have "x \<in> set rs" by simp
        with Cons.IH [OF Some vrs] b show ?thesis by simp
      qed
    next
      case False
      with Some Cons.prems(1) have b: "b = r" by simp
      show ?thesis
      proof (cases "x = r")
        case True
        with b show ?thesis by (simp add: preferred_irrefl)
      next
        case xr: False
        with Cons.prems(3) have xs: "x \<in> set rs" by simp
        with vrs have vx: "getTime (valid_to x) \<noteq> None" by simp
        from Cons.IH [OF Some vrs xs] have "\<not> preferred x b'" .
        from preferred_negtrans [OF vx vb vr this False] b show ?thesis by simp
      qed
    qed
  qed
qed


section \<open>Claims\<close>

text \<open>
  C1 (as the code has it). For an RFQ with a valid deadline the badge has four tiers, not
  three: Breached if the breached flag is set or the deadline has passed
  (hours_remaining < 0); the orange "h left" badge if 0 \<le> hours_remaining \<le> 2; the yellow
  "h left" badge if 2 < hours_remaining \<le> 8; "On track" only if hours_remaining > 8. The
  threshold 2 of the badge is a constant. The configurable threshold is the
  \<open>approaching_hours\<close> argument of \<^verbatim>\<open>getSLAAlerts\<close>: whatever the two arguments, the call
  makes one request whose query carries \<open>include_breached\<close> as given (true when omitted)
  and \<open>approaching_hours\<close> as given (2 when omitted). The threshold ranges over the safe
  integers (magnitude at most 9007199254740991), which JavaScript prints in plain
  decimal.
\<close>

theorem C1_badge_tiers:
  assumes "case ah of None \<Rightarrow> True | Some h \<Rightarrow> \<bar>h\<bar> \<le> 9007199254740991"
  shows "SLABadge now (Some (Date t)) flag =
     (if flag \<or> t < now then Breached
      else if t \<le> now + 7200000 then HoursLeftOrange (Some (of_int (t - now) / 3600000))
      else if t \<le> now + 28800000 then HoursLeftYellow (Some (of_int (t - now) / 3600000))
      else OnTrack)
   \<and> fst (snd (getSLAAlerts (logged fetch) base ib ah ([], w))) =
       [(base @ ''/api/dashboard/sla-alerts?include_breached=''
              @ String_bool (case ib of None \<Rightarrow> True | Some b \<Rightarrow> b)
              @ ''&approaching_hours=''
              @ String_int (case ah of None \<Rightarrow> 2 | Some h \<Rightarrow> h),
         \<lparr> method' = None, headers = [(''Content-Type'', ''application/json'')], body = None \<rparr>)]
   \<and> fst (snd (getSLAAlerts (logged fetch) base None None ([], w))) =
       [(base @ ''/api/dashboard/sla-alerts?include_breached=true&approaching_hours=2'',
         \<lparr> method' = None, headers = [(''Content-Type'', ''application/json'')], body = None \<rparr>)]"
proof -
  have d: "fst (snd (getSLAAlerts (logged fetch) base None None ([], w))) =
       [(base @ ''/api/dashboard/sla-alerts?include_breached=true&approaching_hours=2'',
         \<lparr> method' = None, headers = [(''Content-Type'', ''application/json'')], body = None \<rparr>)]"
    by (simp add: getSLAAlerts_request String_bool_def String_int_2)
  from SLABadge_valid [of now t flag] getSLAAlerts_request [of fetch base ib ah w] d
  show ?thesis by (intro conjI)
qed

text \<open>
  C1 at sample calls: the badge five hours before the deadline, the request of
  \<^verbatim>\<open>getSLAAlerts()\<close> and the request of \<^verbatim>\<open>getSLAAlerts(false, 5)\<close>.
\<close>

theorem C1_badge_tiers_witness:
  "SLABadge 0 (Some (Date 18000000)) False = HoursLeftYellow (Some 5)
   \<and> fst (snd (getSLAAlerts (logged (ok_fetch example_alerts)) ''http://localhost:8000''
                 None None ([], 0))) =
       [(''http://localhost:8000/api/dashboard/sla-alerts?include_breached=true&approaching_hours=2'',
         \<lparr> method' = None, headers = [(''Content-Type'', ''application/json'')], body = None \<rparr>)]
   \<and> fst (snd (getSLAAlerts (logged (ok_fetch example_alerts)) ''http://localhost:8000''
                 (Some False) (Some 5) ([], 0))) =
       [(''http://localhost:8000/api/dashboard/sla-alerts?include_breached=false&approaching_hours=5'',
         \<lparr> method' = None, headers = [(''Content-Type'', ''application/json'')], body = None \<rparr>)]"
proof -
  have h: "case Some (5::int) of None \<Rightarrow> True | Some h \<Rightarrow> \<bar>h\<bar> \<le> 9007199254740991"
    by simp
  note th = C1_badge_tiers [where ah = "Some 5" and ib = "Some False" and now = 0 and t = 18000000
      and flag = False and fetch = "ok_fetch example_alerts" and base = "''http://localhost:8000''"
      and w = 0, OF h]
  from th [THEN conjunct1] have a: "SLABadge 0 (Some (Date 18000000)) False = HoursLeftYellow (Some 5)"
    by simp
  from th [THEN conjunct2, THEN conjunct2] have b:
    "fst (snd (getSLAAlerts (logged (ok_fetch example_alerts)) ''http://localhost:8000''
                 None None ([], 0))) =
       [(''http://localhost:8000/api/dashboard/sla-alerts?include_breached=true&approaching_hours=2'',
         \<lparr> method' = None, headers = [(''Content-Type'', ''application/json'')], body = None \<rparr>)]"
    by simp
  from th [THEN conjunct2, THEN conjunct1] have c:
    "fst (snd (getSLAAlerts (logged (ok_fetch example_alerts)) ''http://localhost:8000''
                 (Some False) (Some 5) ([], 0))) =
       [(''http://localhost:8000/api/dashboard/sla-alerts?include_breached=false&approaching_hours=5'',
         \<lparr> method' = None, headers = [(''Content-Type'', ''application/json'')], body = None \<rparr>)]"
    by (simp add: String_bool_def String_int_5)
  from a b c show ?thesis by (intro conjI)
qed

text \<open>
  C1 as stated fails: five hours before the deadline, with the flag unset, hours_remaining
  exceeds the threshold 2 and the RFQ is not breached, yet the badge is not "On track".
\<close>

theorem C1_counterexample:
  "\<not> js_lt (hoursRemaining 0 (Date 18000000)) 0
   \<and> \<not> js_le (hoursRemaining 0 (Date 18000000)) 2
   \<and> SLABadge 0 (Some (Date 18000000)) False = HoursLeftYellow (Some 5)
   \<and> SLABadge 0 (Some (Date 18000000)) False \<noteq> OnTrack"
  by (simp add: SLABadge_valid hoursRemaining_def js_lt_def js_le_def)

text \<open>
  C2 (as the code has it). The SLA cell of an RFQ row shows Breached exactly when the RFQ
  has a deadline and either its breached flag is set or now is past the deadline. The
  status of the RFQ plays no part: changing it changes nothing in the cell.
\<close>

theorem C2_badge_breached_iff:
  "(RFQTable_sla_cell now rfq = Breached \<longleftrightarrow>
      (case RFQListItem.sla_deadline_at rfq of
         None \<Rightarrow> False
       | Some d \<Rightarrow> sla_breached rfq \<or> js_lt (getTime d) now))
   \<and> RFQTable_sla_cell now (rfq \<lparr> RFQListItem.status := st \<rparr>) = RFQTable_sla_cell now rfq"
proof -
  have "SLABadge now (Some d) b = Breached \<longleftrightarrow> b \<or> js_lt (getTime d) now" for d b
    by (cases d) (simp_all add: SLABadge_valid SLABadge_invalid js_lt_def)
  then show ?thesis
    by (cases "RFQListItem.sla_deadline_at rfq") (simp_all add: RFQTable_sla_cell_def SLABadge_def)
qed

text \<open>
  C2 as stated fails: an RFQ in the terminal status sent, whose deadline has passed and
  whose breached flag is unset, is shown as Breached.
\<close>

theorem C2_counterexample:
  "terminal (RFQListItem.status rfq_sent_overdue)
   \<and> sla_breached rfq_sent_overdue = False
   \<and> RFQTable_sla_cell 1 rfq_sent_overdue = Breached"
  by (simp add: terminal_def rfq_sent_overdue_def RFQTable_sla_cell_def SLABadge_valid)



text \<open>
  C4. Approve on an RFQ whose status is not quote_review fails with
  InvalidStateTransition and returns the store as it was: the RFQ is unchanged and its
  audit log has no new entry. Approve succeeds only on an RFQ in quote_review; it then
  sets the status to sent, stamps quote_sent_at with the time of the call, stores the
  external quotation reference if there is one (and keeps the old value if not), and
  appends one audit entry from quote_review to sent. The client's \<^verbatim>\<open>approveRFQ\<close> checks
  nothing itself: it makes one POST request to the approve endpoint of the RFQ.
\<close>

theorem C4_approve_guard:
  "(\<forall>rfq. store rid = Some rfq \<and> RFQListItem.status rfq \<noteq> ''quote_review'' \<longrightarrow>
       approve env rid store = (Inl InvalidStateTransition, store))
   \<and> (\<forall>rfq. store rid = Some rfq \<and> RFQListItem.status rfq = ''quote_review'' \<longrightarrow>
       (\<exists>rfq'. approve env rid store = (Inr rfq', store (rid \<mapsto> rfq'))
          \<and> RFQListItem.status rfq' = ''sent''
          \<and> quote_sent_at rfq' = Some (Date (clock env))
          \<and> odoo_quotation_number rfq' =
              (case quotation env of None \<Rightarrow> odoo_quotation_number rfq | Some q \<Rightarrow> Some q)
          \<and> audit_log rfq' = audit_log rfq @
              [\<lparr> AuditLogEntry.id' = entry_id env, AuditLogEntry.rfq_id = rid,
                 event = event_name env, old_value = Some ''quote_review'',
                 new_value = Some ''sent'', timestamp = Date (clock env) \<rparr>]))
   \<and> (\<forall>rfq'. fst (approve env rid store) = Inr rfq' \<longrightarrow>
       (\<exists>rfq. store rid = Some rfq \<and> RFQListItem.status rfq = ''quote_review''))
   \<and> fst (snd (approveRFQ (logged fetch) base rid ([], w))) =
       [(base @ ''/api/rfqs/'' @ rid @ ''/approve'',
         \<lparr> method' = Some POST, headers = [(''Content-Type'', ''application/json'')],
           body = None \<rparr>)]"
proof -
  have client: "fst (snd (approveRFQ (logged fetch) base rid ([], w))) =
       [(base @ ''/api/rfqs/'' @ rid @ ''/approve'',
         \<lparr> method' = Some POST, headers = [(''Content-Type'', ''application/json'')],
           body = None \<rparr>)]"
    by (simp add: approveRFQ_def fetchApi_logged obj_spread_def split: prod.splits)
  have server: "(\<forall>rfq. store rid = Some rfq \<and> RFQListItem.status rfq \<noteq> ''quote_review'' \<longrightarrow>
       approve env rid store = (Inl InvalidStateTransition, store))
   \<and> (\<forall>rfq. store rid = Some rfq \<and> RFQListItem.status rfq = ''quote_review'' \<longrightarrow>
       (\<exists>rfq'. approve env rid store = (Inr rfq', store (rid \<mapsto> rfq'))
          \<and> RFQListItem.status rfq' = ''sent''
          \<and> quote_sent_at rfq' = Some (Date (clock env))
          \<and> odoo_quotation_number rfq' =
              (case quotation env of None \<Rightarrow> odoo_quotation_number rfq | Some q \<Rightarrow> Some q)
          \<and> audit_log rfq' = audit_log rfq @
              [\<lparr> AuditLogEntry.id' = entry_id env, AuditLogEntry.rfq_id = rid,
                 event = event_name env, old_value = Some ''quote_review'',
                 new_value = Some ''sent'', timestamp = Date (clock env) \<rparr>]))
   \<and> (\<forall>rfq'. fst (approve env rid store) = Inr rfq' \<longrightarrow>
       (\<exists>rfq. store rid = Some rfq \<and> RFQListItem.status rfq = ''quote_review''))"
    by (auto simp add: approve_def Let_def split: option.splits if_splits)
  from server client show ?thesis by simp
qed

text \<open>
  C4 at sample RFQs: approve is refused in quote_draft and succeeds in quote_review.
\<close>

theorem C4_approve_guard_witness:
  "approve example_env ''rfq-1'' [''rfq-1'' \<mapsto> example_rfq ''quote_draft'']
     = (Inl InvalidStateTransition, [''rfq-1'' \<mapsto> example_rfq ''quote_draft''])
   \<and> (\<exists>rfq'. approve example_env ''rfq-1'' [''rfq-1'' \<mapsto> example_rfq ''quote_review'']
                = (Inr rfq', [''rfq-1'' \<mapsto> rfq'])
          \<and> RFQListItem.status rfq' = ''sent''
          \<and> quote_sent_at rfq' = Some (Date 1000)
          \<and> odoo_quotation_number rfq' = Some ''S00042'')"
proof -
  note th1 = C4_approve_guard [of "[''rfq-1'' \<mapsto> example_rfq ''quote_draft'']" "''rfq-1''" example_env]
  note th2 = C4_approve_guard [of "[''rfq-1'' \<mapsto> example_rfq ''quote_review'']" "''rfq-1''" example_env]
  have a: "approve example_env ''rfq-1'' [''rfq-1'' \<mapsto> example_rfq ''quote_draft'']
     = (Inl InvalidStateTransition, [''rfq-1'' \<mapsto> example_rfq ''quote_draft''])"
    by (rule th1 [THEN conjunct1, rule_format, of "example_rfq ''quote_draft''"])
      (simp add: example_rfq_def)
  have "\<exists>rfq'. approve example_env ''rfq-1'' [''rfq-1'' \<mapsto> example_rfq ''quote_review'']
                = (Inr rfq', [''rfq-1'' \<mapsto> example_rfq ''quote_review'', ''rfq-1'' \<mapsto> rfq'])
          \<and> RFQListItem.status rfq' = ''sent''
          \<and> quote_sent_at rfq' = Some (Date (clock example_env))
          \<and> odoo_quotation_number rfq' =
              (case quotation example_env of
                 None \<Rightarrow> odoo_quotation_number (example_rfq ''quote_review'')
               | Some q \<Rightarrow> Some q)
          \<and> audit_log rfq' = audit_log (example_rfq ''quote_review'') @
              [\<lparr> AuditLogEntry.id' = entry_id example_env, AuditLogEntry.rfq_id = ''rfq-1'',
                 event = event_name example_env, old_value = Some ''quote_review'',
                 new_value = Some ''sent'', timestamp = Date (clock example_env) \<rparr>]"
    by (rule th2 [THEN conjunct2, THEN conjunct1, rule_format, of "example_rfq ''quote_review''"])
      (simp add: example_rfq_def)
  then have b: "\<exists>rfq'. approve example_env ''rfq-1'' [''rfq-1'' \<mapsto> example_rfq ''quote_review'']
                = (Inr rfq', [''rfq-1'' \<mapsto> rfq'])
          \<and> RFQListItem.status rfq' = ''sent''
          \<and> quote_sent_at rfq' = Some (Date 1000)
          \<and> odoo_quotation_number rfq' = Some ''S00042''"
    by (auto simp add: example_env_def)
  from a b show ?thesis by (rule conjI)
qed

text \<open>
  C5 (as the matcher is specified). Against a catalog containing an ACTIVE rate from SIN
  to PHC by SEA at 50 per unit with no surcharge, the lookup for SIN, PHC, SEA and weight
  1000 returns found = true, match_type = exact and confidence = 1. The rate it returns
  is an ACTIVE exact match of the catalog that the tie-break prefers no other ACTIVE exact
  match to: none is cheaper, and none of the same price has an earlier valid_to; so it
  costs at most 50 per unit. The estimated cost depends on the returned rate alone: when
  no surcharge applies to it (the request is not for dangerous goods, or the rate has no
  surcharge) it is the larger of 1000 times its rate_per_unit and its minimum charge, and
  so it is 50000 when the returned rate costs 50 per unit and has no minimum charge above
  50000. The client's \<^verbatim>\<open>lookupRate\<close> makes one POST request carrying the lookup request.
\<close>

theorem C5_lookup_exact:
  assumes "r \<in> set catalog" and "rate_status now r = ''ACTIVE''"
    and "origin_port r = ''SIN''" and "destination_port r = ''PHC''" and "Rate.mode r = ''SEA''"
    and "rate_per_unit r = 50" and "dg_surcharge_pct r = None"
  shows "found (lookup ch now catalog (example_request \<lparr> RateLookupRequest.is_dangerous_goods := dg \<rparr>))
       \<and> match_type (lookup ch now catalog (example_request \<lparr> RateLookupRequest.is_dangerous_goods := dg \<rparr>)) = ''exact''
       \<and> confidence (lookup ch now catalog (example_request \<lparr> RateLookupRequest.is_dangerous_goods := dg \<rparr>)) = 1
       \<and> (\<exists>b. rate (lookup ch now catalog (example_request \<lparr> RateLookupRequest.is_dangerous_goods := dg \<rparr>)) = Some b
             \<and> b \<in> set catalog \<and> rate_status now b = ''ACTIVE'' \<and> tier1 example_request b
             \<and> rate_per_unit b \<le> 50
             \<and> (\<forall>x \<in> set catalog. rate_status now x = ''ACTIVE'' \<and> tier1 example_request x
                   \<longrightarrow> rate_per_unit b \<le> rate_per_unit x \<and> \<not> preferred x b)
             \<and> (dg \<noteq> Some True \<or> dg_surcharge_pct b = None \<longrightarrow>
                  RateLookupResponse.estimated_cost
                    (lookup ch now catalog (example_request \<lparr> RateLookupRequest.is_dangerous_goods := dg \<rparr>))
                  = Some (max (rate_per_unit b * 1000)
                              (case minimum_charge b of None \<Rightarrow> 0 | Some m \<Rightarrow> m)))
             \<and> (rate_per_unit b = 50 \<and> (dg \<noteq> Some True \<or> dg_surcharge_pct b = None)
                 \<and> (case minimum_charge b of None \<Rightarrow> True | Some m \<Rightarrow> m \<le> 50000) \<longrightarrow>
                  RateLookupResponse.estimated_cost
                    (lookup ch now catalog (example_request \<lparr> RateLookupRequest.is_dangerous_goods := dg \<rparr>))
                  = Some 50000))
       \<and> fst (snd (lookupRate (logged fetch) base
                  (example_request \<lparr> RateLookupRequest.is_dangerous_goods := dg \<rparr>) ([], w))) =
           [(base @ ''/api/rates/lookup'',
             \<lparr> method' = Some POST, headers = [(''Content-Type'', ''application/json'')],
               body = Some (JSON_stringify
                 (example_request \<lparr> RateLookupRequest.is_dangerous_goods := dg \<rparr>)) \<rparr>)]"
proof -
  let ?req = "example_request \<lparr> RateLookupRequest.is_dangerous_goods := dg \<rparr>"
  have client: "fst (snd (lookupRate (logged fetch) base ?req ([], w))) =
           [(base @ ''/api/rates/lookup'',
             \<lparr> method' = Some POST, headers = [(''Content-Type'', ''application/json'')],
               body = Some (JSON_stringify ?req) \<rparr>)]"
    by (simp add: lookupRate_def fetchApi_logged obj_spread_def split: prod.splits)
  let ?cands = "filter (tier1 ?req) (filter (\<lambda>r. rate_status now r = ''ACTIVE'') catalog)"
  have t: "tier1 ?req r"
    using assms(3-5) by (simp add: tier1_def example_request_def)
  with assms(1,2) have rc: "r \<in> set ?cands" by simp
  then have "0 < length ?cands" by (rule length_pos_if_in_set)
  then have "?cands \<noteq> []" unfolding length_greater_0_conv .
  then obtain b where b: "best ?cands = Some b"
    using best_None [of ?cands] by (cases "best ?cands") auto
  from best_mem [OF b] have bm: "b \<in> set catalog" "rate_status now b = ''ACTIVE''" "tier1 example_request b"
    by (simp_all add: tier1_dg)
  have valid: "\<forall>y \<in> set ?cands. getTime (valid_to y) \<noteq> None"
    using active_valid_to [of now] by auto
  have ch: "rate_per_unit b \<le> rate_per_unit x \<and> \<not> preferred x b"
    if "x \<in> set catalog" "rate_status now x = ''ACTIVE''" "tier1 example_request x" for x
  proof -
    from that have x: "x \<in> set ?cands" by (simp add: tier1_dg)
    from b x have "rate_per_unit b \<le> rate_per_unit x" by (rule best_cheapest)
    moreover from b valid x have "\<not> preferred x b" by (rule best_not_preferred)
    ultimately show ?thesis by (rule conjI)
  qed
  from best_cheapest [OF b rc] assms(6) have le: "rate_per_unit b \<le> 50" by simp
  have l: "lookup ch now catalog ?req =
     \<lparr> found = True, match_type = ''exact'', rate = Some b,
       RateLookupResponse.estimated_cost = estimate ?req b, confidence = 1,
       message' = found_message ch \<rparr>"
    using b by (simp add: lookup_def Let_def)
  have c: "estimate ?req b = Some (max (rate_per_unit b * 1000)
                                       (case minimum_charge b of None \<Rightarrow> 0 | Some m \<Rightarrow> m))"
    if "dg \<noteq> Some True \<or> dg_surcharge_pct b = None"
    using that
    by (cases dg; cases "dg_surcharge_pct b")
      (auto simp add: estimate_def example_request_def split: bool.splits)
  have c': "estimate ?req b = Some 50000"
    if "rate_per_unit b = 50" "dg \<noteq> Some True \<or> dg_surcharge_pct b = None"
      "case minimum_charge b of None \<Rightarrow> True | Some m \<Rightarrow> m \<le> 50000"
    using c [OF that(2)] that(1,3) by (cases "minimum_charge b") (simp_all add: max_def)
  have ex: "\<exists>b'. rate (lookup ch now catalog ?req) = Some b'
             \<and> b' \<in> set catalog \<and> rate_status now b' = ''ACTIVE'' \<and> tier1 example_request b'
             \<and> rate_per_unit b' \<le> 50
             \<and> (\<forall>x \<in> set catalog. rate_status now x = ''ACTIVE'' \<and> tier1 example_request x
                   \<longrightarrow> rate_per_unit b' \<le> rate_per_unit x \<and> \<not> preferred x b')
             \<and> (dg \<noteq> Some True \<or> dg_surcharge_pct b' = None \<longrightarrow>
                  RateLookupResponse.estimated_cost (lookup ch now catalog ?req)
                  = Some (max (rate_per_unit b' * 1000)
                              (case minimum_charge b' of None \<Rightarrow> 0 | Some m \<Rightarrow> m)))
             \<and> (rate_per_unit b' = 50 \<and> (dg \<noteq> Some True \<or> dg_surcharge_pct b' = None)
                 \<and> (case minimum_charge b' of None \<Rightarrow> True | Some m \<Rightarrow> m \<le> 50000) \<longrightarrow>
                  RateLookupResponse.estimated_cost (lookup ch now catalog ?req) = Some 50000)"
  proof (intro exI [of _ b] conjI)
    show "rate (lookup ch now catalog ?req) = Some b" by (simp add: l)
    show "b \<in> set catalog" "rate_status now b = ''ACTIVE''" "tier1 example_request b"
      by (rule bm)+
    show "rate_per_unit b \<le> 50" by (rule le)
    show "\<forall>x \<in> set catalog. rate_status now x = ''ACTIVE'' \<and> tier1 example_request x
                   \<longrightarrow> rate_per_unit b \<le> rate_per_unit x \<and> \<not> preferred x b"
      using ch by blast
    show "dg \<noteq> Some True \<or> dg_surcharge_pct b = None \<longrightarrow>
                  RateLookupResponse.estimated_cost (lookup ch now catalog ?req)
                  = Some (max (rate_per_unit b * 1000)
                              (case minimum_charge b of None \<Rightarrow> 0 | Some m \<Rightarrow> m))"
      using c by (simp add: l)
    show "rate_per_unit b = 50 \<and> (dg \<noteq> Some True \<or> dg_surcharge_pct b = None)
                 \<and> (case minimum_charge b of None \<Rightarrow> True | Some m \<Rightarrow> m \<le> 50000) \<longrightarrow>
                  RateLookupResponse.estimated_cost (lookup ch now catalog ?req) = Some 50000"
      using c' by (simp add: l)
  qed
  have f: "found (lookup ch now catalog ?req)" by (simp add: l)
  have mt: "match_type (lookup ch now catalog ?req) = ''exact''" by (simp add: l)
  have cf: "confidence (lookup ch now catalog ?req) = 1" by (simp add: l)
  from f mt cf ex client show ?thesis by (intro conjI)
qed

text \<open>
  C5 at a catalog that holds that rate, valid from 0 to 100, a dearer exact match at 60
  per unit and an exact match of the same price that expires later, looked up at time 50:
  the rate of the claim is returned and the cost is 50000.
\<close>

theorem C5_lookup_exact_witness:
  "lookup example_choices 50
     [example_rate_later, example_rate ''ACTIVE'' (Date 0) (Date 100), example_rate_dearer]
     example_request =
     \<lparr> found = True, match_type = ''exact'',
       rate = Some (example_rate ''ACTIVE'' (Date 0) (Date 100)),
       RateLookupResponse.estimated_cost = Some 50000, confidence = 1,
       message' = ''Rate found'' \<rparr>"
proof -
  let ?r = "example_rate ''ACTIVE'' (Date 0) (Date 100)"
  let ?cat = "[example_rate_later, ?r, example_rate_dearer]"
  have req: "example_request \<lparr> RateLookupRequest.is_dangerous_goods := None \<rparr> = example_request"
    by (simp add: example_request_def)
  have a: "?r \<in> set ?cat" "rate_status 50 ?r = ''ACTIVE''" "origin_port ?r = ''SIN''"
    "destination_port ?r = ''PHC''" "Rate.mode ?r = ''SEA''" "rate_per_unit ?r = 50"
    "dg_surcharge_pct ?r = None"
    by (simp_all add: example_rate_def rate_status_def)
  note th = C5_lookup_exact [OF a, of example_choices None, unfolded req]
  have r: "rate (lookup example_choices 50 ?cat example_request) = Some ?r"
    by (simp add: lookup_def tier1_def example_request_def example_rate_def rate_status_def
        example_rate_dearer_def example_rate_later_def preferred_def)
  have m: "message' (lookup example_choices 50 ?cat example_request) = ''Rate found''"
    by (simp add: lookup_def tier1_def example_request_def example_rate_def rate_status_def
        example_rate_dearer_def example_rate_later_def preferred_def example_choices_def)
  have h: "rate_per_unit ?r = 50 \<and> (None \<noteq> Some True \<or> dg_surcharge_pct ?r = None)
        \<and> (case minimum_charge ?r of None \<Rightarrow> True | Some m \<Rightarrow> m \<le> 50000)"
    by (simp add: example_rate_def)
  from th [THEN conjunct2, THEN conjunct2, THEN conjunct2, THEN conjunct1]
  obtain b where b: "rate (lookup example_choices 50 ?cat example_request) = Some b"
    and c: "rate_per_unit b = 50 \<and> (None \<noteq> Some True \<or> dg_surcharge_pct b = None)
                 \<and> (case minimum_charge b of None \<Rightarrow> True | Some m \<Rightarrow> m \<le> 50000) \<longrightarrow>
                  RateLookupResponse.estimated_cost (lookup example_choices 50 ?cat example_request)
                  = Some 50000"
    by (elim exE conjE)
  from b r have "b = ?r" by simp
  with c h have e: "RateLookupResponse.estimated_cost (lookup example_choices 50 ?cat example_request)
                  = Some 50000"
    by (simp only:)
  note f = th [THEN conjunct1]
  note mt = th [THEN conjunct2, THEN conjunct1]
  note cf = th [THEN conjunct2, THEN conjunct2, THEN conjunct1]
  from f mt cf r m e show ?thesis
    by (cases "lookup example_choices 50 ?cat example_request") simp
qed

text \<open>
  C5 as stated fails, in two ways. With the rate of the claim (no surcharge, no minimum
  charge) and a second ACTIVE exact match at 40 per unit in the catalog, the cheaper rate
  is chosen and the estimated cost is 40000. And the rate of the claim with a minimum
  charge of 60000 is ACTIVE, is the exact match, has no surcharge, and the estimated cost
  is the minimum charge 60000, not 50000.
\<close>

theorem C5_counterexample:
  "rate_status 50 (example_rate ''ACTIVE'' (Date 0) (Date 100)) = ''ACTIVE''
   \<and> origin_port (example_rate ''ACTIVE'' (Date 0) (Date 100)) = ''SIN''
   \<and> destination_port (example_rate ''ACTIVE'' (Date 0) (Date 100)) = ''PHC''
   \<and> Rate.mode (example_rate ''ACTIVE'' (Date 0) (Date 100)) = ''SEA''
   \<and> rate_per_unit (example_rate ''ACTIVE'' (Date 0) (Date 100)) = 50
   \<and> dg_surcharge_pct (example_rate ''ACTIVE'' (Date 0) (Date 100)) = None
   \<and> minimum_charge (example_rate ''ACTIVE'' (Date 0) (Date 100)) = None
   \<and> RateLookupResponse.estimated_cost
        (lookup example_choices 50
           [example_rate ''ACTIVE'' (Date 0) (Date 100), example_rate_cheaper] example_request)
       = Some 40000
   \<and> rate_status 50 example_rate_min = ''ACTIVE''
   \<and> origin_port example_rate_min = ''SIN'' \<and> destination_port example_rate_min = ''PHC''
   \<and> Rate.mode example_rate_min = ''SEA'' \<and> rate_per_unit example_rate_min = 50
   \<and> dg_surcharge_pct example_rate_min = None
   \<and> RateLookupResponse.estimated_cost (lookup example_choices 50 [example_rate_min] example_request)
       = Some 60000"
  by (simp add: example_rate_min_def example_rate_cheaper_def example_rate_def rate_status_def
      lookup_def tier1_def example_request_def estimate_def preferred_def)



text \<open>
  C7. When the response to a request of \<^verbatim>\<open>fetchApi\<close> or \<^verbatim>\<open>uploadRFQ\<close> is not OK, the call
  never returns a normal result. If the body can be read, it throws an Error whose message
  is the body text, or "API error: <status>" (for \<^verbatim>\<open>uploadRFQ\<close>: "Upload failed:
  <status>") when the body is empty; if reading the body fails, that failure is thrown.
\<close>

theorem C7_errors_thrown:
  fixes fetch :: "('w, 'a) fetch"
  shows
  "(\<forall>resp w'. fetch (base @ endpoint)
        (options \<lparr> headers := obj_spread [(''Content-Type'', ''application/json'')] (headers options) \<rparr>) w
        = (Inr resp, w') \<and> \<not> ok resp \<longrightarrow>
      (\<forall>x. fst (fetchApi fetch base endpoint options w) \<noteq> Inr x)
      \<and> (\<forall>b. text' resp = Inr b \<longrightarrow>
            fst (fetchApi fetch base endpoint options w) =
              Inl (Error (if b \<noteq> [] then b
                          else ''API error: '' @ String_nat (Response.status resp))))
      \<and> (\<forall>e. text' resp = Inl e \<longrightarrow> fst (fetchApi fetch base endpoint options w) = Inl e))
   \<and> (\<forall>resp w'. fetch (base @ ''/api/rfqs/upload'')
        \<lparr> method' = Some POST, headers = [], body = Some (FormData [(''file'', f)]) \<rparr> w
        = (Inr resp, w') \<and> \<not> ok resp \<longrightarrow>
      (\<forall>x. fst (uploadRFQ fetch base f w) \<noteq> Inr x)
      \<and> (\<forall>b. text' resp = Inr b \<longrightarrow>
            fst (uploadRFQ fetch base f w) =
              Inl (Error (if b \<noteq> [] then b
                          else ''Upload failed: '' @ String_nat (Response.status resp))))
      \<and> (\<forall>e. text' resp = Inl e \<longrightarrow> fst (uploadRFQ fetch base f w) = Inl e))"
  by (auto simp add: fetchApi_def uploadRFQ_def split: sum.splits)

text \<open>
  C7 at sample responses: a 500 with an empty body, and a 422 with a body.
\<close>

theorem C7_errors_thrown_witness:
  "fst (fetchApi (rejecting_fetch 500 [] :: (unit, unit) fetch) ''http://localhost:8000'' ''/api/rfqs'' no_options ())
     = Inl (Error ''API error: 500'')
   \<and> fst (uploadRFQ (rejecting_fetch 422 ''not an email'' :: (unit, unit) fetch) ''http://localhost:8000'' example_file ())
     = Inl (Error ''not an email'')"
proof -
  have p: "(rejecting_fetch 500 [] :: (unit, unit) fetch) (''http://localhost:8000'' @ ''/api/rfqs'')
        (no_options \<lparr> headers := obj_spread [(''Content-Type'', ''application/json'')] (headers no_options) \<rparr>) ()
        = (Inr \<lparr> ok = False, Response.status = 500, text' = Inr [], json = Inl (SyntaxError ''Unexpected end of JSON input'') \<rparr>, ())"
    by (simp add: rejecting_fetch_def)
  have q: "(rejecting_fetch 422 ''not an email'' :: (unit, unit) fetch) (''http://localhost:8000'' @ ''/api/rfqs/upload'')
        \<lparr> method' = Some POST, headers = [], body = Some (FormData [(''file'', example_file)]) \<rparr> ()
        = (Inr \<lparr> ok = False, Response.status = 422, text' = Inr ''not an email'', json = Inl (SyntaxError ''Unexpected end of JSON input'') \<rparr>, ())"
    by (simp add: rejecting_fetch_def)
  note th = C7_errors_thrown [of "rejecting_fetch 500 [] :: (unit, unit) fetch" "''http://localhost:8000''" "''/api/rfqs''"
      no_options "()" ]
  note th2 = C7_errors_thrown [of "rejecting_fetch 422 ''not an email'' :: (unit, unit) fetch" "''http://localhost:8000''" _ _ "()" example_file]
  have a: "fst (fetchApi (rejecting_fetch 500 [] :: (unit, unit) fetch) ''http://localhost:8000'' ''/api/rfqs'' no_options ())
     = Inl (Error ''API error: 500'')"
    using th p by (simp add: String_nat_500)
  have b: "fst (uploadRFQ (rejecting_fetch 422 ''not an email'' :: (unit, unit) fetch) ''http://localhost:8000'' example_file ())
     = Inl (Error ''not an email'')"
    using th2 q by simp
  from a b show ?thesis by (rule conjI)
qed

text \<open>
  C8. Loading the dashboard makes exactly three requests, each with the default method
  GET and no body: the overview, the SLA alerts with the default parameters, and the rates
  with status=ACTIVE. Against a backend that changes nothing on a GET request, the load
  leaves the backend as it was. When the three calls succeed, the state shown is
  determined by the three fresh responses and the clock alone, whatever the state before.
\<close>

theorem C8_dashboard_read_only:
  fixes fO :: "('w, DashboardOverview) fetch" and fA :: "('w, SLAAlerts) fetch"
    and fR :: "('w, Rate list) fetch"
  shows
  "fst (snd (fetchData (logged fO) (logged fA) (logged fR) base now st ([], w))) =
      [(base @ ''/api/dashboard/overview'',
        \<lparr> method' = None, headers = [(''Content-Type'', ''application/json'')], body = None \<rparr>),
       (base @ ''/api/dashboard/sla-alerts?include_breached=true&approaching_hours=2'',
        \<lparr> method' = None, headers = [(''Content-Type'', ''application/json'')], body = None \<rparr>),
       (base @ ''/api/rates?status=ACTIVE'',
        \<lparr> method' = None, headers = [(''Content-Type'', ''application/json'')], body = None \<rparr>)]
   \<and> request_method
        \<lparr> method' = None, headers = [(''Content-Type'', ''application/json'')], body = None \<rparr> = GET
   \<and> ((\<forall>url init v. request_method init = GET \<longrightarrow> snd (fO url init v) = v)
        \<and> (\<forall>url init v. request_method init = GET \<longrightarrow> snd (fA url init v) = v)
        \<and> (\<forall>url init v. request_method init = GET \<longrightarrow> snd (fR url init v) = v)
        \<longrightarrow> snd (fetchData fO fA fR base now st w) = w)
   \<and> (\<forall>ov al rs. fst (fetchData_results fO fA fR base w) = (Inr ov, Inr al, Inr rs) \<longrightarrow>
         fst (fetchData fO fA fR base now st w) =
           \<lparr> overview = Some ov, slaAlerts = Some al, expiringRates = expiring now rs,
             loading = False \<rparr>)"
proof -
  have a: "fst (snd (fetchData (logged fO) (logged fA) (logged fR) base now st ([], w))) =
      [(base @ ''/api/dashboard/overview'',
        \<lparr> method' = None, headers = [(''Content-Type'', ''application/json'')], body = None \<rparr>),
       (base @ ''/api/dashboard/sla-alerts?include_breached=true&approaching_hours=2'',
        \<lparr> method' = None, headers = [(''Content-Type'', ''application/json'')], body = None \<rparr>),
       (base @ ''/api/rates?status=ACTIVE'',
        \<lparr> method' = None, headers = [(''Content-Type'', ''application/json'')], body = None \<rparr>)]"
    by (simp add: fetchData_snd fetchData_results_logged split: prod.splits)
  have b: "request_method
        \<lparr> method' = None, headers = [(''Content-Type'', ''application/json'')], body = None \<rparr> = GET"
    by (simp add: request_method_def)
  have c: "(\<forall>url init v. request_method init = GET \<longrightarrow> snd (fO url init v) = v)
        \<and> (\<forall>url init v. request_method init = GET \<longrightarrow> snd (fA url init v) = v)
        \<and> (\<forall>url init v. request_method init = GET \<longrightarrow> snd (fR url init v) = v)
        \<longrightarrow> snd (fetchData fO fA fR base now st w) = w"
    by (simp add: fetchData_snd fetchData_results_safe)
  have d: "\<forall>ov al rs. fst (fetchData_results fO fA fR base w) = (Inr ov, Inr al, Inr rs) \<longrightarrow>
         fst (fetchData fO fA fR base now st w) =
           \<lparr> overview = Some ov, slaAlerts = Some al, expiringRates = expiring now rs,
             loading = False \<rparr>"
    by (auto simp add: fetchData_def split: prod.splits sum.splits)
  from a b c d show ?thesis by (intro conjI)
qed

text \<open>
  C8 at a sample network that counts the requests that are not GET: the count stays 0 and
  the state holds the payloads just fetched.
\<close>

theorem C8_dashboard_read_only_witness:
  "snd (fetchData (ok_fetch example_overview) (ok_fetch example_alerts)
          (ok_fetch [example_rate ''ACTIVE'' (Date 0) (Date 86400000)])
          ''http://localhost:8000'' 0 DashboardPage_initial 0) = 0
   \<and> fst (fetchData (ok_fetch example_overview) (ok_fetch example_alerts)
          (ok_fetch [example_rate ''ACTIVE'' (Date 0) (Date 86400000)])
          ''http://localhost:8000'' 0 DashboardPage_initial 0) =
       \<lparr> overview = Some example_overview, slaAlerts = Some example_alerts,
         expiringRates = expiring 0 [example_rate ''ACTIVE'' (Date 0) (Date 86400000)],
         loading = False \<rparr>"
proof -
  let ?r = "[example_rate ''ACTIVE'' (Date 0) (Date 86400000)]"
  note th = C8_dashboard_read_only [of "ok_fetch example_overview" "ok_fetch example_alerts"
      "ok_fetch ?r" "''http://localhost:8000''" 0 DashboardPage_initial 0]
  have res: "fst (fetchData_results (ok_fetch example_overview) (ok_fetch example_alerts)
          (ok_fetch ?r) ''http://localhost:8000'' 0) = (Inr example_overview, Inr example_alerts, Inr ?r)"
    by (simp add: fetchData_results_def getDashboardOverview_def getSLAAlerts_def listRates_def
        fetchApi_def ok_fetch_def Let_def)
  note c = th [THEN conjunct2, THEN conjunct2, THEN conjunct1, rule_format]
  note d = th [THEN conjunct2, THEN conjunct2, THEN conjunct2, rule_format]
  have a: "snd (fetchData (ok_fetch example_overview) (ok_fetch example_alerts)
          (ok_fetch ?r) ''http://localhost:8000'' 0 DashboardPage_initial 0) = 0"
    by (rule c) (simp add: ok_fetch_def)
  have b: "fst (fetchData (ok_fetch example_overview) (ok_fetch example_alerts)
          (ok_fetch ?r) ''http://localhost:8000'' 0 DashboardPage_initial 0) =
       \<lparr> overview = Some example_overview, slaAlerts = Some example_alerts,
         expiringRates = expiring 0 ?r, loading = False \<rparr>"
    by (rule d) (rule res)
  from a b show ?thesis by (rule conjI)
qed

text \<open>
  C9 (as the code has it). After any sequence of drag, drop, file-selection, submit and
  clear events on the upload form, the selected file is empty or has a name ending in
  ".eml", and every request the form has made is an upload of one file whose name ends in
  ".eml". A drop or selection whose first file has another name sets the error message
  and does not select that file: the selection stays as it was, unset if it was unset and
  the earlier .eml file if there was one. Submitting with no file selected makes no
  request and changes nothing.
\<close>

theorem C9_upload_only_eml:
  "(case file' (fst (UploadForm_run fetch base events w)) of
      None \<Rightarrow> True
    | Some f \<Rightarrow> endsWith (name f) ''.eml'')
   \<and> list_all (eml_upload base) (fst (snd (UploadForm_run (logged fetch) base events ([], w))))
   \<and> (\<not> endsWith (name f) ''.eml'' \<longrightarrow>
        handleDrop (f # fs) st = st \<lparr> dragActive := False, error := Some ''Please upload an .eml file'' \<rparr>
        \<and> handleChange (f # fs) st = st \<lparr> error := Some ''Please upload an .eml file'' \<rparr>
        \<and> file' (handleDrop (f # fs) st) = file' st
        \<and> file' (handleChange (f # fs) st) = file' st)
   \<and> (file' st = None \<longrightarrow>
        handleSubmit (logged fetch) base st (reqs, w) = ((st, None), (reqs, w)))"
proof -
  have i: "file_ok UploadForm_initial" by (simp add: file_ok_def UploadForm_initial_def)
  have n: "list_all (eml_upload base) []" by simp
  note r = run_invariant [OF i n, of fetch w events]
  have a: "case file' (fst (UploadForm_run fetch base events w)) of
      None \<Rightarrow> True
    | Some f \<Rightarrow> endsWith (name f) ''.eml''"
    using r run_file_logged [of fetch base UploadForm_initial "[]" w events]
    by (simp add: UploadForm_run_def file_ok_def)
  have b: "list_all (eml_upload base) (fst (snd (UploadForm_run (logged fetch) base events ([], w))))"
    using r by (simp add: UploadForm_run_def)
  have c: "\<not> endsWith (name f) ''.eml'' \<longrightarrow>
        handleDrop (f # fs) st = st \<lparr> dragActive := False, error := Some ''Please upload an .eml file'' \<rparr>
        \<and> handleChange (f # fs) st = st \<lparr> error := Some ''Please upload an .eml file'' \<rparr>
        \<and> file' (handleDrop (f # fs) st) = file' st
        \<and> file' (handleChange (f # fs) st) = file' st"
    by (simp add: handleDrop_def handleChange_def)
  have d: "file' st = None \<longrightarrow>
        handleSubmit (logged fetch) base st (reqs, w) = ((st, None), (reqs, w))"
    by (simp add: handleSubmit_def)
  from a b c d show ?thesis by (intro conjI)
qed

text \<open>
  C9 at a sample run: a text file is dropped, an .eml file is selected, the form is
  submitted.
\<close>

theorem C9_upload_only_eml_witness:
  "list_all (eml_upload ''http://localhost:8000'')
     (fst (snd (UploadForm_run (logged (rejecting_fetch 500 [])) ''http://localhost:8000''
        [Drop [example_text_file], Change [example_file], Submit] ([], ()))))
   \<and> handleDrop [example_text_file] UploadForm_initial =
       UploadForm_initial \<lparr> dragActive := False, error := Some ''Please upload an .eml file'' \<rparr>
   \<and> handleSubmit (logged (rejecting_fetch 500 [])) ''http://localhost:8000'' UploadForm_initial ([], ())
       = ((UploadForm_initial, None), ([], ()))"
proof -
  note th = C9_upload_only_eml [of "rejecting_fetch 500 []" "''http://localhost:8000''"
      "[Drop [example_text_file], Change [example_file], Submit]" "()" example_text_file "[]"
      UploadForm_initial "[]"]
  have n: "\<not> endsWith (name example_text_file) ''.eml''"
    by (simp add: endsWith_def example_text_file_def)
  have e: "file' UploadForm_initial = None"
    by (simp add: UploadForm_initial_def)
  note a = th [THEN conjunct2, THEN conjunct1]
  note b = th [THEN conjunct2, THEN conjunct2, THEN conjunct1, rule_format, OF n, THEN conjunct1]
  note c = th [THEN conjunct2, THEN conjunct2, THEN conjunct2, rule_format, OF e]
  from a b c show ?thesis by (intro conjI)
qed

text \<open>
  C9 as stated fails: with an .eml file already selected, a drop of a file named
  "notes.txt" is rejected with the error message, and the selected file is not unset: it
  is still the .eml file.
\<close>

theorem C9_counterexample:
  "\<not> endsWith (name example_text_file) ''.eml''
   \<and> file' (fst (UploadForm_run (rejecting_fetch 500 []) ''http://localhost:8000''
        [Change [example_file], Drop [example_text_file]] ())) = Some example_file
   \<and> error (fst (UploadForm_run (rejecting_fetch 500 []) ''http://localhost:8000''
        [Change [example_file], Drop [example_text_file]] ())) = Some ''Please upload an .eml file''"
  by (simp add: UploadForm_run_def handleChange_def handleDrop_def endsWith_def
      example_file_def example_text_file_def UploadForm_initial_def)

text \<open>
  C10. \<^verbatim>\<open>getDaysUntilExpiry\<close> is the ceiling of (valid_to - now) / 24 h. It is 0 exactly
  for a \<open>valid_to\<close> in the 24 hours just before now (more than now - 24 h, at most now),
  so there it is not negative; \<^verbatim>\<open>getExpiryColor\<close> then gives the urgent red class and not
  the gray class of expired rates, and the dashboard counts such a rate among the rates
  expiring within 7 days. The dashboard's list is the fetched list filtered by
  0 \<le> days \<le> 7 (a \<open>valid_to\<close> that is no date is dropped): a rate is in it exactly when it
  is in the fetched list and its \<open>valid_to\<close> is more than now - 24 h and at most
  now + 7 days.
\<close>

theorem C10_days_until_expiry_ceiling:
  fixes now t :: int
  shows "getDaysUntilExpiry now (Date t) = Some \<lceil>(of_int (t - now) :: rat) / 86400000\<rceil>
       \<and> (getDaysUntilExpiry now (Date t) = Some 0 \<longleftrightarrow> now - 86400000 < t \<and> t \<le> now)
       \<and> (now - 86400000 < t \<and> t \<le> now \<longrightarrow>
            \<not> js_lt (getDaysUntilExpiry now (Date t)) 0
            \<and> getExpiryColor (getDaysUntilExpiry now (Date t)) = ''text-red-600''
            \<and> getExpiryColor (getDaysUntilExpiry now (Date t)) \<noteq> ''text-gray-500''
            \<and> (\<forall>r ratesData. r \<in> set ratesData \<and> valid_to r = Date t
                  \<longrightarrow> r \<in> set (expiring now ratesData)))
       \<and> expiring now rs =
           filter (\<lambda>r. case getDaysUntilExpiry now (valid_to r) of
                         None \<Rightarrow> False
                       | Some d \<Rightarrow> 0 \<le> d \<and> d \<le> 7) rs
       \<and> ((0 \<le> \<lceil>(of_int (t - now) :: rat) / 86400000\<rceil>
            \<and> \<lceil>(of_int (t - now) :: rat) / 86400000\<rceil> \<le> 7)
           \<longleftrightarrow> now - 86400000 < t \<and> t \<le> now + 604800000)
       \<and> (\<forall>r. valid_to r = Date t \<longrightarrow>
             (r \<in> set (expiring now rs) \<longleftrightarrow>
                r \<in> set rs \<and> now - 86400000 < t \<and> t \<le> now + 604800000))"
proof -
  have e: "getDaysUntilExpiry now (Date t) = Some \<lceil>(of_int (t - now) :: rat) / 86400000\<rceil>"
    by (simp add: getDaysUntilExpiry_def)
  have "getDaysUntilExpiry now (Date t) = Some 0 \<longleftrightarrow> - 86400000 < t - now \<and> t - now \<le> 0"
    unfolding getDaysUntilExpiry_def getTime.simps option.case Let_def option.inject
    by (rule days_zero_iff)
  also have "\<dots> \<longleftrightarrow> now - 86400000 < t \<and> t \<le> now" by linarith
  finally have z: "getDaysUntilExpiry now (Date t) = Some 0 \<longleftrightarrow> now - 86400000 < t \<and> t \<le> now" .
  have c: "getExpiryColor (Some 0) = ''text-red-600''"
    by (simp add: getExpiryColor_def js_lt_def js_le_def)
  have w: "\<not> js_lt (getDaysUntilExpiry now (Date t)) 0
       \<and> getExpiryColor (getDaysUntilExpiry now (Date t)) = ''text-red-600''
       \<and> getExpiryColor (getDaysUntilExpiry now (Date t)) \<noteq> ''text-gray-500''
       \<and> (\<forall>r ratesData. r \<in> set ratesData \<and> valid_to r = Date t
             \<longrightarrow> r \<in> set (expiring now ratesData))"
    if "now - 86400000 < t \<and> t \<le> now"
  proof -
    from that z have d: "getDaysUntilExpiry now (Date t) = Some 0" by simp
    have f: "r \<in> set (expiring now ratesData)"
      if "r \<in> set ratesData" "valid_to r = Date t" for r ratesData
      using that d by (simp add: expiring_def js_le_def js_ge_def)
    from d c f show ?thesis by (simp add: js_lt_def)
  qed
  have w': "now - 86400000 < t \<and> t \<le> now \<longrightarrow>
            \<not> js_lt (getDaysUntilExpiry now (Date t)) 0
            \<and> getExpiryColor (getDaysUntilExpiry now (Date t)) = ''text-red-600''
            \<and> getExpiryColor (getDaysUntilExpiry now (Date t)) \<noteq> ''text-gray-500''
            \<and> (\<forall>r ratesData. r \<in> set ratesData \<and> valid_to r = Date t
                  \<longrightarrow> r \<in> set (expiring now ratesData))"
    by (rule impI) (rule w)
  have k: "(0 \<le> \<lceil>(of_int (t - now) :: rat) / 86400000\<rceil>
            \<and> \<lceil>(of_int (t - now) :: rat) / 86400000\<rceil> \<le> 7)
           \<longleftrightarrow> now - 86400000 < t \<and> t \<le> now + 604800000"
    using kept_iff [of now t] by (simp add: e js_le_def js_ge_def conj_commute)
  have m: "\<forall>r. valid_to r = Date t \<longrightarrow>
             (r \<in> set (expiring now rs) \<longleftrightarrow>
                r \<in> set rs \<and> now - 86400000 < t \<and> t \<le> now + 604800000)"
    by (intro allI impI) (rule expiring_member)
  from e z w' expiring_filter [of now rs] k m show ?thesis by (intro conjI)
qed

text \<open>
  C10 at a rate that expired one hour ago: the day count is 0, the colour is the urgent
  red, and the dashboard lists the rate as expiring. A rate that expired two days ago and
  a rate that expires in ten days are filtered out.
\<close>

theorem C10_days_until_expiry_ceiling_witness:
  "getDaysUntilExpiry 86400000 (Date 82800000) = Some 0
   \<and> getExpiryColor (getDaysUntilExpiry 86400000 (Date 82800000)) = ''text-red-600''
   \<and> expiring 86400000 [example_rate ''EXPIRED'' (Date 0) (Date 82800000)]
       = [example_rate ''EXPIRED'' (Date 0) (Date 82800000)]
   \<and> example_rate ''EXPIRED'' (Date 0) (Date (- 86400000))
       \<notin> set (expiring 86400000 [example_rate ''EXPIRED'' (Date 0) (Date (- 86400000))])
   \<and> example_rate ''ACTIVE'' (Date 0) (Date 950400000)
       \<notin> set (expiring 86400000 [example_rate ''ACTIVE'' (Date 0) (Date 950400000)])"
proof -
  let ?r = "example_rate ''EXPIRED'' (Date 0) (Date 82800000)"
  let ?old = "example_rate ''EXPIRED'' (Date 0) (Date (- 86400000))"
  let ?far = "example_rate ''ACTIVE'' (Date 0) (Date 950400000)"
  have h: "(86400000::int) - 86400000 < 82800000 \<and> (82800000::int) \<le> 86400000"
    by simp
  note th = C10_days_until_expiry_ceiling [where now = 86400000 and t = 82800000]
  note i = th [THEN conjunct2, THEN conjunct2, THEN conjunct1, THEN mp, OF h]
  note a = th [THEN conjunct2, THEN conjunct1, THEN iffD2, OF h]
  note b = i [THEN conjunct2, THEN conjunct1]
  note k = i [THEN conjunct2, THEN conjunct2, THEN conjunct2, rule_format]
  have "?r \<in> set [?r] \<and> valid_to ?r = Date 82800000"
    by (simp add: example_rate_def)
  then have "?r \<in> set (expiring 86400000 [?r])"
    by (rule k)
  then have c: "expiring 86400000 [?r] = [?r]"
    by (simp add: expiring_def split: if_splits)
  note m1 = C10_days_until_expiry_ceiling [where now = 86400000 and t = "- 86400000" and rs = "[?old]",
      THEN conjunct2, THEN conjunct2, THEN conjunct2, THEN conjunct2, THEN conjunct2,
      rule_format, of ?old]
  have v1: "valid_to ?old = Date (- 86400000)" by (simp add: example_rate_def)
  have d: "?old \<notin> set (expiring 86400000 [?old])"
    using m1 [OF v1] by simp
  note m2 = C10_days_until_expiry_ceiling [where now = 86400000 and t = 950400000 and rs = "[?far]",
      THEN conjunct2, THEN conjunct2, THEN conjunct2, THEN conjunct2, THEN conjunct2,
      rule_format, of ?far]
  have v2: "valid_to ?far = Date 950400000" by (simp add: example_rate_def)
  have f: "?far \<notin> set (expiring 86400000 [?far])"
    using m2 [OF v2] by simp
  from a b c d f show ?thesis by (intro conjI)
qed

end
